theory Spec2Isabelle
  imports Complex_Main
begin

section \<open>Scalars: the template parameter \<open>T\<close>\<close>

text \<open>
  The estimators of \<^verbatim>\<open>normal.cpp\<close> are templates over \<open>T\<close>, which is \<open>float\<close> or
  \<open>double\<close>. A value of \<open>T\<close> is modelled as a finite real, one of the two infinities, or
  NaN. This idealises IEEE 754: on finite values the operations and the square root are
  exact, where the machine rounds to its format and overflows to an infinity; a zero has
  no sign (a zero divisor counts as \<open>+0\<close>); and \<open>NaN\<close> stands for every NaN, whatever
  its sign and payload. The comparisons and the special values follow IEEE 754. The
  theorems of this development do not rest on the value of a rounded operation: they use
  how the computations are put together, the comparisons, and the rules for NaN, and
  they evaluate finite arithmetic only on integers that the format holds exactly.
\<close>

datatype fl = Fin real | PInf | NInf | NaN

fun cvIsNaN :: "fl \<Rightarrow> bool" where
  "cvIsNaN NaN = True"
| "cvIsNaN x = False"

text \<open>\<open>fl_neg x\<close> tells whether \<open>x\<close> is below zero; it gives products and quotients
  with an infinity their sign.\<close>

fun fl_neg :: "fl \<Rightarrow> bool" where
  "fl_neg (Fin x) = (x < 0)"
| "fl_neg NInf = True"
| "fl_neg x = False"

fun fl_sqrt :: "fl \<Rightarrow> fl" where
  "fl_sqrt (Fin x) = (if x < 0 then NaN else Fin (sqrt x))"
| "fl_sqrt PInf = PInf"
| "fl_sqrt NInf = NaN"
| "fl_sqrt NaN = NaN"

instantiation fl :: "{zero,one,plus,minus,uminus,times,inverse,abs,ord}"
begin

definition zero_fl :: fl where "zero_fl = Fin 0"

definition one_fl :: fl where "one_fl = Fin 1"

fun uminus_fl :: "fl \<Rightarrow> fl" where
  "uminus_fl (Fin x) = Fin (- x)"
| "uminus_fl PInf = NInf"
| "uminus_fl NInf = PInf"
| "uminus_fl NaN = NaN"

fun abs_fl :: "fl \<Rightarrow> fl" where
  "abs_fl (Fin x) = Fin \<bar>x\<bar>"
| "abs_fl PInf = PInf"
| "abs_fl NInf = PInf"
| "abs_fl NaN = NaN"

fun plus_fl :: "fl \<Rightarrow> fl \<Rightarrow> fl" where
  "plus_fl (Fin x) (Fin y) = Fin (x + y)"
| "plus_fl NaN y = NaN"
| "plus_fl x NaN = NaN"
| "plus_fl PInf NInf = NaN"
| "plus_fl NInf PInf = NaN"
| "plus_fl PInf y = PInf"
| "plus_fl NInf y = NInf"
| "plus_fl x PInf = PInf"
| "plus_fl x NInf = NInf"

definition minus_fl :: "fl \<Rightarrow> fl \<Rightarrow> fl" where
  "minus_fl x y = x + (- y)"

fun times_fl :: "fl \<Rightarrow> fl \<Rightarrow> fl" where
  "times_fl (Fin x) (Fin y) = Fin (x * y)"
| "times_fl NaN y = NaN"
| "times_fl x NaN = NaN"
| "times_fl x y =
     (if x = Fin 0 \<or> y = Fin 0 then NaN
      else if fl_neg x = fl_neg y then PInf else NInf)"

fun divide_fl :: "fl \<Rightarrow> fl \<Rightarrow> fl" where
  "divide_fl (Fin x) (Fin y) =
     (if y = 0 then (if x = 0 then NaN else if 0 < x then PInf else NInf)
      else Fin (x / y))"
| "divide_fl NaN y = NaN"
| "divide_fl x NaN = NaN"
| "divide_fl (Fin x) y = Fin 0"
| "divide_fl x (Fin y) = (if fl_neg x = (y < 0) then PInf else NInf)"
| "divide_fl x y = NaN"

fun inverse_fl :: "fl \<Rightarrow> fl" where
  "inverse_fl (Fin y) = (if y = 0 then PInf else Fin (1 / y))"
| "inverse_fl NaN = NaN"
| "inverse_fl x = Fin 0"

fun less_fl :: "fl \<Rightarrow> fl \<Rightarrow> bool" where
  "less_fl (Fin x) (Fin y) = (x < y)"
| "less_fl NaN y = False"
| "less_fl x NaN = False"
| "less_fl x NInf = False"
| "less_fl PInf y = False"
| "less_fl x y = True"

fun less_eq_fl :: "fl \<Rightarrow> fl \<Rightarrow> bool" where
  "less_eq_fl (Fin x) (Fin y) = (x \<le> y)"
| "less_eq_fl NaN y = False"
| "less_eq_fl x NaN = False"
| "less_eq_fl NInf y = True"
| "less_eq_fl x PInf = True"
| "less_eq_fl x y = False"

instance ..

end

text \<open>The C++ operator \<open>!=\<close> on scalars: a NaN differs from everything, itself included.\<close>

fun fl_ne :: "fl \<Rightarrow> fl \<Rightarrow> bool" where
  "fl_ne NaN y = True"
| "fl_ne x NaN = True"
| "fl_ne x y = (x \<noteq> y)"


section \<open>Vectors and the sign convention\<close>

text \<open>\<open>cv::Vec<T, 3>\<close> is a triple, \<open>cv::Matx<T, 3, 3>\<close> its three rows.\<close>

type_synonym Vec3 = "fl \<times> fl \<times> fl"

type_synonym Matx33 = "Vec3 \<times> Vec3 \<times> Vec3"

fun vx :: "Vec3 \<Rightarrow> fl" where "vx (a, b, c) = a"

fun vy :: "Vec3 \<Rightarrow> fl" where "vy (a, b, c) = b"

fun vz :: "Vec3 \<Rightarrow> fl" where "vz (a, b, c) = c"

text \<open>The operators of \<open>cv::Vec\<close> the source uses: unary minus, division by a scalar,
  the cross product, and the product of a \<open>Matx\<close> with a \<open>Vec\<close>.\<close>

fun vneg :: "Vec3 \<Rightarrow> Vec3" where
  "vneg (a, b, c) = (- a, - b, - c)"

fun vdiv :: "Vec3 \<Rightarrow> fl \<Rightarrow> Vec3" where
  "vdiv (a, b, c) s = (a / s, b / s, c / s)"

fun cross :: "Vec3 \<Rightarrow> Vec3 \<Rightarrow> Vec3" where
  "cross (a1, a2, a3) (b1, b2, b3) =
     (a2 * b3 - a3 * b2, a3 * b1 - a1 * b3, a1 * b2 - a2 * b1)"

fun dot :: "Vec3 \<Rightarrow> Vec3 \<Rightarrow> fl" where
  "dot (a1, a2, a3) (b1, b2, b3) = a1 * b1 + a2 * b2 + a3 * b3"

fun matvec :: "Matx33 \<Rightarrow> Vec3 \<Rightarrow> Vec3" where
  "matvec (r0, r1, r2) v = (dot r0 v, dot r1 v, dot r2 v)"

text \<open>\<^verbatim>\<open>norm_vec\<close>: the norm of a vector.\<close>

fun norm_vec :: "Vec3 \<Rightarrow> fl" where
  "norm_vec (v0, v1, v2) = fl_sqrt (v0 * v0 + v1 * v1 + v2 * v2)"

text \<open>\<^verbatim>\<open>signNormal(const Vec<T,3>& normal_in, Vec<T,3>& normal_out)\<close>: the value
  written to \<open>normal_out\<close>.\<close>

definition signNormal :: "Vec3 \<Rightarrow> Vec3" where
  "signNormal normal_in =
     (if 0 < vz normal_in then vdiv (vneg normal_in) (norm_vec normal_in)
      else vdiv normal_in (norm_vec normal_in))"

text \<open>\<^verbatim>\<open>signNormal(T a, T b, T c, Vec<T,3>& normal)\<close>: the value written to
  \<open>normal\<close>.\<close>

definition signNormal3 :: "fl \<Rightarrow> fl \<Rightarrow> fl \<Rightarrow> Vec3" where
  "signNormal3 a b c =
     (let norm = 1 / fl_sqrt (a * a + b * b + c * c)
      in if 0 < c then (- a * norm, - b * norm, - c * norm)
         else (a * norm, b * norm, c * norm))"

section \<open>Images and the estimator base class\<close>

text \<open>
  \<open>cv::Mat_<T>\<close>, here \<open>'a TMat\<close>, is a continuous row-major grid: the element of row \<open>y\<close> and column
  \<open>x\<close> is at index \<open>y * cols + x\<close> of the data. The untyped \<open>cv::Mat\<close> adds the
  tags the dispatcher inspects; its scalars are kept by value, whatever the storage
  type, with the three scalars of a 3-channel element next to each other.
\<close>

record 'a TMat =
  Mat_rows :: int
  Mat_cols :: int
  Mat_data :: "'a list"

record Mat = "fl TMat" +
  Mat_dims :: int
  Mat_depth :: int
  Mat_channels :: int

text \<open>The depth codes of OpenCV's \<^verbatim>\<open>types_c.h\<close>.\<close>

definition CV_16U :: int where "CV_16U = 2"

definition CV_32F :: int where "CV_32F = 5"

definition CV_64F :: int where "CV_64F = 6"

text \<open>
  Modelled from the spec: the enumeration \<^verbatim>\<open>RGBD_NORMALS_METHOD\<close> is declared in
  \<^verbatim>\<open>rgbd.hpp\<close>, which is not among the sources; the spec names its three methods.
  The source passes a method around as an \<open>int\<close>, so any other number is a value too.
\<close>

datatype RGBD_NORMALS_METHOD =
    RGBD_NORMALS_METHOD_FALS
  | RGBD_NORMALS_METHOD_LINEMOD
  | RGBD_NORMALS_METHOD_SRI
  | RGBD_NORMALS_METHOD_other int

text \<open>The fields of \<^verbatim>\<open>RgbdNormalsImpl\<close>, the base class of the three estimators: the
  member \<^verbatim>\<open>rows_\<close> is \<open>impl_rows\<close>, and so on.\<close>

record RgbdNormalsImpl =
  impl_rows :: int
  impl_cols :: int
  impl_depth :: int
  impl_K :: Mat
  impl_K_ori :: Mat
  impl_window_size :: int
  impl_method :: RGBD_NORMALS_METHOD

text \<open>\<^verbatim>\<open>K_.copyTo(K)\<close> into a \<open>Matx<T, 3, 3>\<close>.\<close>

definition Matx33_of :: "Mat \<Rightarrow> Matx33" where
  "Matx33_of K =
     (let d = Mat_data K
      in ((d ! 0, d ! 1, d ! 2), (d ! 3, d ! 4, d ! 5), (d ! 6, d ! 7, d ! 8)))"

section \<open>The radius\<close>

text \<open>\<^verbatim>\<open>computeRadius\<close>: the distance of every point to the origin, the points being
  read through \<^verbatim>\<open>ptr<PointT>\<close>.\<close>

definition computeRadius :: "Vec3 TMat \<Rightarrow> fl TMat" where
  "computeRadius points =
     \<lparr>Mat_rows = Mat_rows points, Mat_cols = Mat_cols points,
      Mat_data = map (\<lambda>k. norm_vec (Mat_data points ! k))
                   [0..<nat (Mat_rows points * Mat_cols points)]\<rparr>"

section \<open>The LINEMOD estimator\<close>

text \<open>\<^verbatim>\<open>multiply_by_K_inv\<close>: the product with an upper triangular \<open>K_inv\<close>
  whose last row is \<open>(0, 0, 1)\<close>.\<close>

fun multiply_by_K_inv :: "Matx33 \<Rightarrow> fl \<Rightarrow> fl \<Rightarrow> fl \<Rightarrow> Vec3" where
  "multiply_by_K_inv ((k00, k01, k02), (k10, k11, k12), r2) a b c =
     (k00 * a + k01 * b + k02 * c, k11 * b + k12 * c, c)"

text \<open>The inverse of \<open>K\<close> that \<^verbatim>\<open>computeImpl\<close> writes out by hand, on top of the
  identity matrix.\<close>

fun K_inv_by_hand :: "Matx33 \<Rightarrow> Matx33" where
  "K_inv_by_hand ((k00, k01, k02), (k10, k11, k12), r2) =
     ((1 / k00, - k01 / (k00 * k11), (k01 * k12 - k02 * k11) / (k00 * k11)),
      (0, 1 / k11, - k12 / k11),
      (0, 0, 1))"

text \<open>The constants of \<^verbatim>\<open>computeImpl\<close>, its \<open>r\<close> under the name \<open>margin_r\<close>, and its
  tables of sample offsets. The two
  loops \<^verbatim>\<open>for (j = -r; j <= r; j += sample_step)\<close> and the same on \<open>i\<close> run
  \<open>square_size\<close> times each, \<open>j\<close> outermost.\<close>

definition margin_r :: int where "margin_r = 5"

definition sample_step :: int where "sample_step = margin_r"

definition square_size :: int where "square_size = 2 * margin_r div sample_step + 1"

definition sample_coords :: "int list" where
  "sample_coords = map (\<lambda>k. - margin_r + int k * sample_step) [0..<nat square_size]"

definition sample_grid :: "(int \<times> int) list" where
  "sample_grid = concat (map (\<lambda>j. map (\<lambda>i. (i, j)) sample_coords) sample_coords)"

definition offsets_x :: "int list" where
  "offsets_x = map (\<lambda>(i, j). i) sample_grid"

definition offsets_y :: "int list" where
  "offsets_y = map (\<lambda>(i, j). j) sample_grid"

definition offsets_x_x :: "int list" where
  "offsets_x_x = map (\<lambda>(i, j). i * i) sample_grid"

definition offsets_x_y :: "int list" where
  "offsets_x_y = map (\<lambda>(i, j). i * j) sample_grid"

definition offsets_y_y :: "int list" where
  "offsets_y_y = map (\<lambda>(i, j). j * j) sample_grid"

definition offsets :: "int \<Rightarrow> int list" where
  "offsets cols = map (\<lambda>(i, j). j * cols + i) sample_grid"

text \<open>
  \<^verbatim>\<open>computeImpl<DepthDepth, ContainerDepth>\<close> is instantiated at
  \<open><unsigned short, long>\<close>, \<open><float, float>\<close> and \<open><double, double>\<close>. The model
  is polymorphic in both types and takes the conversions between them, \<open>long\<close> and
  \<open>T\<close> as a record: the cast \<^verbatim>\<open>ContainerDepth(x)\<close>, the promotion of a \<open>long\<close> or
  an \<open>int\<close> operand to \<open>ContainerDepth\<close>, and the conversion of an argument of
  \<^verbatim>\<open>multiply_by_K_inv\<close> to \<open>T\<close>. A \<open>long\<close> is an \<open>int\<close>: the sums of at most nine
  table entries stay far from its bounds.
\<close>

record ('d, 'c) conversions =
  ContainerDepth :: "'d \<Rightarrow> 'c"
  of_long :: "int \<Rightarrow> 'c"
  to_T :: "'c \<Rightarrow> fl"

text \<open>The accumulation loop over the samples, for the pixel at index \<open>p\<close> of the depth
  data: \<open>(A[0], A[1], A[3], b[0], b[1])\<close> after the loop.\<close>

definition accumulate ::
  "('d, 'c::{zero,plus,minus,times,abs,ord}) conversions \<Rightarrow> int \<Rightarrow> 'd list \<Rightarrow> int
     \<Rightarrow> int \<times> int \<times> int \<times> 'c \<times> 'c" where
  "accumulate cv cols depth p =
     fold (\<lambda>i (A0, A1, A3, b0, b1).
             let delta = ContainerDepth cv (depth ! nat (p + offsets cols ! i))
                           - ContainerDepth cv (depth ! nat p)
             in if of_long cv 50 < \<bar>delta\<bar> then (A0, A1, A3, b0, b1)
                else (A0 + offsets_x_x ! i, A1 + offsets_x_y ! i, A3 + offsets_y_y ! i,
                      b0 + of_long cv (offsets_x ! i) * delta,
                      b1 + of_long cv (offsets_y ! i) * delta))
          [0..<nat (square_size * square_size)] (0, 0, 0, 0, 0)"

text \<open>The gradients \<open>(dx, dy)\<close>, left multiplied by the determinant.\<close>

fun gradient ::
  "('d, 'c::{zero,plus,minus,times,abs,ord}) conversions \<Rightarrow> int \<times> int \<times> int \<times> 'c \<times> 'c
     \<Rightarrow> 'c \<times> 'c" where
  "gradient cv (A0, A1, A3, b0, b1) =
     (of_long cv A3 * b0 - of_long cv A1 * b1,
      of_long cv (- A1) * b0 + of_long cv A0 * b1)"

text \<open>The body of the pixel loop at column \<open>x\<close> and row \<open>y\<close>: the vector \<open>nor\<close>
  handed to \<^verbatim>\<open>signNormal\<close>.\<close>

definition nor ::
  "('d, 'c::{zero,plus,minus,times,abs,ord}) conversions \<Rightarrow> RgbdNormalsImpl \<Rightarrow> 'd TMat
     \<Rightarrow> int \<Rightarrow> int \<Rightarrow> Vec3" where
  "nor cv impl depth x y =
     (let K_inv = K_inv_by_hand (Matx33_of (impl_K impl));
          p = y * Mat_cols depth + x;
          d = ContainerDepth cv (Mat_data depth ! nat p);
          acc = accumulate cv (impl_cols impl) (Mat_data depth) p;
          det = (case acc of (A0, A1, A3, b0, b1) \<Rightarrow> A0 * A3 - A1 * A1);
          dx = fst (gradient cv acc);
          dy = snd (gradient cv acc);
          X1_minus_X = multiply_by_K_inv K_inv
             (to_T cv (d * of_long cv det + of_long cv (x + 1) * dx))
             (to_T cv (of_long cv y * dx)) (to_T cv dx);
          X2_minus_X = multiply_by_K_inv K_inv
             (to_T cv (of_long cv x * dy))
             (to_T cv (d * of_long cv det + of_long cv (y + 1) * dy)) (to_T cv dy)
      in cross X1_minus_X X2_minus_X)"

text \<open>
  The accumulation as the specification words it: the nine samples \<open>(i, j)\<close> in the
  order of the loop, the depth difference \<open>\<Delta>\<close> of a sample from the centre, and the
  samples the loop keeps, those whose \<open>\<bar>\<Delta>\<bar>\<close> is not above the threshold.
\<close>

definition nine_samples :: "(int \<times> int) list" where
  "nine_samples = [(-5, -5), (0, -5), (5, -5), (-5, 0), (0, 0), (5, 0), (-5, 5), (0, 5), (5, 5)]"

definition sample_delta ::
  "('d, 'c::{zero,plus,minus,times,abs,ord}) conversions \<Rightarrow> int \<Rightarrow> 'd list \<Rightarrow> int
     \<Rightarrow> int \<times> int \<Rightarrow> 'c" where
  "sample_delta cv cols depth p s =
     (case s of (i, j) \<Rightarrow>
        ContainerDepth cv (depth ! nat (p + (j * cols + i))) - ContainerDepth cv (depth ! nat p))"

definition kept_samples ::
  "('d, 'c::{zero,plus,minus,times,abs,ord}) conversions \<Rightarrow> int \<Rightarrow> 'd list \<Rightarrow> int
     \<Rightarrow> (int \<times> int) list" where
  "kept_samples cv cols depth p =
     filter (\<lambda>s. \<not> of_long cv 50 < \<bar>sample_delta cv cols depth p s\<bar>) nine_samples"

text \<open>The pixels the two loops \<^verbatim>\<open>for (y = r; y < rows_ - r - 1; ++y)\<close> and
  \<^verbatim>\<open>for (x = r; x < cols_ - r - 1; ++x)\<close> visit, in order, as (column, row).\<close>

definition pixels :: "int \<Rightarrow> int \<Rightarrow> (int \<times> int) list" where
  "pixels rows cols =
     concat (map (\<lambda>y. map (\<lambda>x. (x, y)) [margin_r..cols - margin_r - 2]) [margin_r..rows - margin_r - 2])"

text \<open>\<^verbatim>\<open>computeImpl\<close>: each visited pixel stores \<open>signNormal(nor)\<close> at its place of
  the output; nothing else is stored.\<close>

definition computeImpl ::
  "('d, 'c::{zero,plus,minus,times,abs,ord}) conversions \<Rightarrow> RgbdNormalsImpl \<Rightarrow> 'd TMat
     \<Rightarrow> Vec3 TMat \<Rightarrow> Vec3 TMat" where
  "computeImpl cv impl depth normals =
     normals\<lparr>Mat_data :=
       fold (\<lambda>(x, y) buf. buf[nat (y * Mat_cols normals + x) := signNormal (nor cv impl depth x y)])
         (pixels (impl_rows impl) (impl_cols impl)) (Mat_data normals)\<rparr>"

text \<open>The conversions of the instantiations \<open><unsigned short, long>\<close> (a depth in
  millimetres, kept by value) and \<open><float, float>\<close>, \<open><double, double>\<close>.\<close>

fun fl_to_long :: "fl \<Rightarrow> int" where
  "fl_to_long (Fin v) = \<lfloor>v\<rfloor>"
| "fl_to_long v = 0"

definition conversions_ushort_long :: "(fl, int) conversions" where
  "conversions_ushort_long =
     \<lparr>ContainerDepth = fl_to_long, of_long = (\<lambda>n. n), to_T = (\<lambda>n. Fin (of_int n))\<rparr>"

definition conversions_float :: "(fl, fl) conversions" where
  "conversions_float =
     \<lparr>ContainerDepth = (\<lambda>v. v), of_long = (\<lambda>n. Fin (of_int n)), to_T = (\<lambda>v. v)\<rparr>"

text \<open>\<^verbatim>\<open>LINEMOD::compute\<close>: the switch on the depth of the input; other depths have
  no case and leave the output as it is.\<close>

definition LINEMOD_compute :: "RgbdNormalsImpl \<Rightarrow> Mat \<Rightarrow> Vec3 TMat \<Rightarrow> Vec3 TMat" where
  "LINEMOD_compute impl depth_in normals =
     (if Mat_depth depth_in = CV_16U
        then computeImpl conversions_ushort_long impl (TMat.truncate depth_in) normals
      else if Mat_depth depth_in = CV_32F \<or> Mat_depth depth_in = CV_64F
        then computeImpl conversions_float impl (TMat.truncate depth_in) normals
      else normals)"

section \<open>The filters of OpenCV\<close>

text \<open>
  The estimators call \<^verbatim>\<open>cv::boxFilter\<close>, \<^verbatim>\<open>cv::remap\<close> and \<^verbatim>\<open>cv::sepFilter2D\<close>,
  which are not part of this program. They are parameters of the model, with the
  arguments the source passes that are not constants: the source image and, in turn, the
  window size, the two coordinate tables, and the two kernels.
\<close>

record opencv =
  boxFilter :: "Vec3 TMat \<Rightarrow> int \<Rightarrow> Vec3 TMat"
  remap :: "fl TMat \<Rightarrow> Mat \<Rightarrow> Mat \<Rightarrow> fl TMat"
  remap3 :: "Vec3 TMat \<Rightarrow> Mat \<Rightarrow> Mat \<Rightarrow> Vec3 TMat"
  sepFilter2D :: "fl TMat \<Rightarrow> Mat \<Rightarrow> Mat \<Rightarrow> fl TMat"

section \<open>The FALS estimator\<close>

text \<open>The class \<^verbatim>\<open>FALS\<close> adds the cached fields \<^verbatim>\<open>V_\<close> and \<^verbatim>\<open>M_inv_\<close>, whose
  nine scalars per pixel the source reads as a \<open>Matx<T, 3, 3>\<close>.\<close>

record FALS = RgbdNormalsImpl +
  FALS_V :: "Vec3 TMat"
  FALS_M_inv :: "Matx33 TMat"

text \<open>The field \<open>B\<close> of \<^verbatim>\<open>FALS::compute\<close> before the box filter: the zero vector
  where the radius is NaN.\<close>

definition FALS_B :: "FALS \<Rightarrow> fl TMat \<Rightarrow> Vec3 TMat" where
  "FALS_B impl r =
     \<lparr>Mat_rows = impl_rows impl, Mat_cols = impl_cols impl,
      Mat_data = map (\<lambda>k. if cvIsNaN (Mat_data r ! k) then (0, 0, 0)
                           else vdiv (Mat_data (FALS_V impl) ! k) (Mat_data r ! k))
                   [0..<nat (impl_rows impl * impl_cols impl)]\<rparr>"

text \<open>\<^verbatim>\<open>FALS::compute(const cv::Mat&, const cv::Mat& r, cv::Mat& normals)\<close>; the first
  argument has no name in the source.\<close>

definition FALS_compute :: "opencv \<Rightarrow> FALS \<Rightarrow> Mat \<Rightarrow> fl TMat \<Rightarrow> Vec3 TMat \<Rightarrow> Vec3 TMat" where
  "FALS_compute cv impl points3d r normals =
     (let B = boxFilter cv (FALS_B impl r) (impl_window_size impl)
      in normals\<lparr>Mat_data :=
           fold (\<lambda>k buf. buf[k :=
                   if cvIsNaN (Mat_data r ! k)
                   then (Mat_data r ! k, Mat_data r ! k, Mat_data r ! k)
                   else signNormal (matvec (Mat_data (FALS_M_inv impl) ! k) (Mat_data B ! k))])
             [0..<nat (impl_rows impl * impl_cols impl)] (Mat_data normals)\<rparr>)"

section \<open>The SRI estimator\<close>

text \<open>The class \<^verbatim>\<open>SRI\<close> adds the cached rotation field \<^verbatim>\<open>R_hat_\<close>, the
  derivative kernels and the coordinate tables of the two resamplings.\<close>

record SRI = RgbdNormalsImpl +
  SRI_R_hat :: "Matx33 TMat"
  SRI_kx_dx :: Mat
  SRI_ky_dx :: Mat
  SRI_kx_dy :: Mat
  SRI_ky_dy :: Mat
  SRI_xy :: Mat
  SRI_fxy :: Mat
  SRI_invxy :: Mat
  SRI_invfxy :: Mat

text \<open>The radius resampled on the angular grid, \<open>r\<close> in \<^verbatim>\<open>SRI::compute\<close>.\<close>

definition SRI_r :: "opencv \<Rightarrow> SRI \<Rightarrow> fl TMat \<Rightarrow> fl TMat" where
  "SRI_r cv impl r_non_interp = remap cv r_non_interp (SRI_xy impl) (SRI_fxy impl)"

text \<open>The normals on the angular grid, the local \<open>normals\<close> of \<^verbatim>\<open>SRI::compute\<close>
  after its first loop.\<close>

definition SRI_normals :: "opencv \<Rightarrow> SRI \<Rightarrow> fl TMat \<Rightarrow> Vec3 TMat" where
  "SRI_normals cv impl r_non_interp =
     (let r = SRI_r cv impl r_non_interp;
          r_theta = sepFilter2D cv r (SRI_kx_dx impl) (SRI_ky_dx impl);
          r_phi = sepFilter2D cv r (SRI_kx_dy impl) (SRI_ky_dy impl)
      in \<lparr>Mat_rows = impl_rows impl, Mat_cols = impl_cols impl,
          Mat_data = map (\<lambda>k.
            let r_k = Mat_data r ! k
            in if cvIsNaN r_k then (r_k, r_k, r_k)
               else (case Mat_data (SRI_R_hat impl) ! k of
                       ((R00, R01, R02), (R10, R11, R12), (R20, R21, R22)) \<Rightarrow>
                         let r_theta_over_r = Mat_data r_theta ! k / r_k;
                             r_phi_over_r = Mat_data r_phi ! k / r_k
                         in signNormal3 (R00 + R01 * r_theta_over_r + R02 * r_phi_over_r)
                              (R10 + R12 * r_phi_over_r)
                              (R20 + R21 * r_theta_over_r + R22 * r_phi_over_r)))
            [0..<nat (impl_rows impl * impl_cols impl)]\<rparr>)"

text \<open>The normals resampled back to the image, before the last loop.\<close>

definition SRI_remapped :: "opencv \<Rightarrow> SRI \<Rightarrow> fl TMat \<Rightarrow> Vec3 TMat" where
  "SRI_remapped cv impl r_non_interp =
     remap3 cv (SRI_normals cv impl r_non_interp) (SRI_invxy impl) (SRI_invfxy impl)"

text \<open>\<^verbatim>\<open>SRI::compute\<close>: \<^verbatim>\<open>cv::remap\<close> fills \<open>normals_out\<close>, and the last loop
  passes each of its pixels through \<^verbatim>\<open>signNormal\<close>.\<close>

definition SRI_compute :: "opencv \<Rightarrow> SRI \<Rightarrow> Mat \<Rightarrow> fl TMat \<Rightarrow> Vec3 TMat \<Rightarrow> Vec3 TMat" where
  "SRI_compute cv impl points3d r_non_interp normals_out =
     (let remapped = SRI_remapped cv impl r_non_interp
      in remapped\<lparr>Mat_data :=
           fold (\<lambda>k buf. buf[k := signNormal3 (vx (buf ! k)) (vy (buf ! k)) (vz (buf ! k))])
             [0..<nat (impl_rows impl * impl_cols impl)] (Mat_data remapped)\<rparr>)"

section \<open>The dispatcher \<open>cv::RgbdNormals\<close>\<close>

text \<open>A failed \<^verbatim>\<open>CV_Assert\<close> throws; indexing a \<open>std::vector\<close> past its end is
  undefined behaviour. Both end the call and are results of the model.\<close>

datatype error = CV_Assert_failed | Undefined_behaviour

text \<open>The fields of \<^verbatim>\<open>cv::RgbdNormals\<close>: the member \<^verbatim>\<open>rows_\<close> is \<open>cfg_rows\<close>, and so
  on. The pointer \<^verbatim>\<open>rgbd_normals_impl_\<close> is null or points to an estimator of one of
  the three classes.\<close>

datatype estimator = FALS_obj FALS | LINEMOD_obj RgbdNormalsImpl | SRI_obj SRI

record RgbdNormals =
  cfg_rows :: int
  cfg_cols :: int
  cfg_depth :: int
  cfg_K :: Mat
  cfg_window_size :: int
  cfg_method :: RGBD_NORMALS_METHOD
  rgbd_normals_impl :: "estimator option"

text \<open>\<^verbatim>\<open>reinterpret_cast<RgbdNormalsImpl *>(rgbd_normals_impl_)\<close>: the base class part.\<close>

fun base_of :: "estimator \<Rightarrow> RgbdNormalsImpl" where
  "base_of (FALS_obj impl) = RgbdNormalsImpl.truncate impl"
| "base_of (LINEMOD_obj impl) = impl"
| "base_of (SRI_obj impl) = RgbdNormalsImpl.truncate impl"

text \<open>The pieces of \<open>cv::Mat\<close> the dispatcher uses: the default constructor,
  \<^verbatim>\<open>empty()\<close>, \<^verbatim>\<open>type()\<close>, the count of the elements where two matrices differ
  (\<^verbatim>\<open>countNonZero(K_ori != K_ori_)\<close>), and \<^verbatim>\<open>convertTo\<close>, which changes the
  storage type; the values are kept, their rounding to a narrower type not being modelled.\<close>

definition Mat_default :: Mat where
  "Mat_default =
     \<lparr>Mat_rows = 0, Mat_cols = 0, Mat_data = [], Mat_dims = 0, Mat_depth = 0, Mat_channels = 1\<rparr>"

definition Mat_empty :: "Mat \<Rightarrow> bool" where
  "Mat_empty m = (Mat_data m = [] \<or> Mat_rows m * Mat_cols m = 0)"

definition Mat_type :: "Mat \<Rightarrow> int" where
  "Mat_type m = Mat_depth m + (Mat_channels m - 1) * 8"

definition countNonZero_ne :: "Mat \<Rightarrow> Mat \<Rightarrow> nat" where
  "countNonZero_ne a b =
     length (filter (\<lambda>(x, y). fl_ne x y) (zip (Mat_data a) (Mat_data b)))"

definition convertTo :: "Mat \<Rightarrow> int \<Rightarrow> Mat" where
  "convertTo m depth = m\<lparr>Mat_depth := depth\<rparr>"

text \<open>The constructor of \<^verbatim>\<open>RgbdNormalsImpl\<close>.\<close>

definition RgbdNormalsImpl_new ::
  "int \<Rightarrow> int \<Rightarrow> int \<Rightarrow> int \<Rightarrow> Mat \<Rightarrow> RGBD_NORMALS_METHOD \<Rightarrow> RgbdNormalsImpl" where
  "RgbdNormalsImpl_new rows cols window_size depth K method =
     \<lparr>impl_rows = rows, impl_cols = cols, impl_depth = depth, impl_K = convertTo K depth,
      impl_K_ori = K, impl_window_size = window_size, impl_method = method\<rparr>"

text \<open>\<^verbatim>\<open>RgbdNormalsImpl::validate\<close>. Its second conjunct is written
  \<^verbatim>\<open>(cols = cols_)\<close>: an assignment to the parameter, whose value is \<^verbatim>\<open>cols_\<close>
  and counts as true when it is not zero.\<close>

definition validate ::
  "RgbdNormalsImpl \<Rightarrow> int \<Rightarrow> int \<Rightarrow> int \<Rightarrow> Mat \<Rightarrow> int \<Rightarrow> RGBD_NORMALS_METHOD \<Rightarrow> bool" where
  "validate impl rows cols depth K_ori window_size method =
     (if Mat_cols K_ori \<noteq> Mat_cols (impl_K_ori impl) \<or> Mat_rows K_ori \<noteq> Mat_rows (impl_K_ori impl)
         \<or> Mat_type K_ori \<noteq> Mat_type (impl_K_ori impl)
      then False
      else let K_test = (countNonZero_ne K_ori (impl_K_ori impl) = 0);
               cols = impl_cols impl
           in rows = impl_rows impl \<and> cols \<noteq> 0 \<and> window_size = impl_window_size impl
              \<and> depth = impl_depth impl \<and> K_test \<and> method = impl_method impl)"

text \<open>
  The virtual \<^verbatim>\<open>cache()\<close> of FALS and of SRI fills the cached fields of the new
  estimator. Both begin with \<^verbatim>\<open>computeThetaPhi<T>(rows_, cols_, K_, ...)\<close>, whose
  parameter is a \<open>Matx<T, 3, 3>\<close>: the \<open>cv::Mat\<close> \<^verbatim>\<open>K_\<close> is converted on the way, and
  the conversion operator of OpenCV asserts
  \<^verbatim>\<open>data && dims <= 2 && rows == m && cols == n && channels() == 1\<close>.
\<close>

definition Matx33_checked :: "Mat \<Rightarrow> error + Matx33" where
  "Matx33_checked K =
     (if Mat_data K \<noteq> [] \<and> Mat_dims K \<le> 2 \<and> Mat_rows K = 3 \<and> Mat_cols K = 3
         \<and> Mat_channels K = 1
      then Inr (Matx33_of K) else Inl CV_Assert_failed)"

text \<open>
  The rest of \<^verbatim>\<open>cache()\<close> runs through \<^verbatim>\<open>depthTo3d\<close> and through the filters, the
  matrix inversion, the derivative kernels and the projection of OpenCV, each of which
  may throw. It is a parameter of the model, which gives the cached fields or the error
  from the base class part, left as it is, and the converted \<open>K\<close>: for FALS the fields
  \<^verbatim>\<open>V_\<close> and \<^verbatim>\<open>M_inv_\<close>; for SRI first the calls up to \<^verbatim>\<open>getDerivKernels\<close>,
  which give the four derivative kernels, then the rest, which gives \<^verbatim>\<open>R_hat_\<close>, the
  kernels divided by the steps of the angular grid, and the four coordinate tables.
  \<^verbatim>\<open>LINEMOD::cache\<close> does nothing. What the dispatcher holds after a throw is not
  modelled: an error ends the call.
\<close>

record caches =
  FALS_cache :: "RgbdNormalsImpl \<Rightarrow> Matx33 \<Rightarrow> error + Vec3 TMat \<times> Matx33 TMat"
  SRI_cache_begin :: "RgbdNormalsImpl \<Rightarrow> Matx33 \<Rightarrow> error + Mat \<times> Mat \<times> Mat \<times> Mat"
  SRI_cache_end ::
    "RgbdNormalsImpl \<Rightarrow> Matx33 \<Rightarrow> Mat \<times> Mat \<times> Mat \<times> Mat
       \<Rightarrow> error + Matx33 TMat \<times> (Mat \<times> Mat \<times> Mat \<times> Mat) \<times> (Mat \<times> Mat \<times> Mat \<times> Mat)"

text \<open>The constructor of \<^verbatim>\<open>FALS\<close> followed by \<^verbatim>\<open>FALS::cache\<close>.\<close>

definition FALS_new :: "caches \<Rightarrow> RgbdNormalsImpl \<Rightarrow> error + FALS" where
  "FALS_new cs base =
     (case Matx33_checked (impl_K base) of
        Inl e \<Rightarrow> Inl e
      | Inr K \<Rightarrow>
         (case FALS_cache cs base K of
            Inl e \<Rightarrow> Inl e
          | Inr (V, M_inv) \<Rightarrow> Inr (RgbdNormalsImpl.extend base (FALS.fields V M_inv))))"

text \<open>
  Between the kernels and the tables, \<^verbatim>\<open>SRI::cache\<close> reads four elements of the grids
  that \<^verbatim>\<open>computeThetaPhi\<close> created with \<^verbatim>\<open>rows_\<close> rows and \<^verbatim>\<open>cols_\<close> columns:
  \<^verbatim>\<open>sin_theta(0, 0)\<close>, \<^verbatim>\<open>sin_theta(0, cols_ - 1)\<close>, \<^verbatim>\<open>sin_phi(0, cols_/2-1)\<close> and
  \<^verbatim>\<open>sin_phi(rows_ - 1, cols_/2-1)\<close>. The element access of \<open>cv::Mat_\<close> checks nothing
  in a release build, so a read outside of the grid is undefined behaviour. The division
  of C++ on \<open>int\<close> truncates towards zero.
\<close>

definition div_c :: "int \<Rightarrow> int \<Rightarrow> int" where
  "div_c a b = sgn a * sgn b * (\<bar>a\<bar> div \<bar>b\<bar>)"

definition in_grid :: "int \<Rightarrow> int \<Rightarrow> int \<Rightarrow> int \<Rightarrow> bool" where
  "in_grid rows cols y x = (0 \<le> y \<and> y < rows \<and> 0 \<le> x \<and> x < cols)"

text \<open>The constructor of \<^verbatim>\<open>SRI\<close> followed by \<^verbatim>\<open>SRI::cache\<close>.\<close>

definition SRI_new :: "caches \<Rightarrow> RgbdNormalsImpl \<Rightarrow> error + SRI" where
  "SRI_new cs base =
     (case Matx33_checked (impl_K base) of
        Inl e \<Rightarrow> Inl e
      | Inr K \<Rightarrow>
         (case SRI_cache_begin cs base K of
            Inl e \<Rightarrow> Inl e
          | Inr kernels \<Rightarrow>
             let rows = impl_rows base; cols = impl_cols base
             in if in_grid rows cols 0 0 \<and> in_grid rows cols 0 (cols - 1)
                   \<and> in_grid rows cols 0 (div_c cols 2 - 1)
                   \<and> in_grid rows cols (rows - 1) (div_c cols 2 - 1)
                then (case SRI_cache_end cs base K kernels of
                        Inl e \<Rightarrow> Inl e
                      | Inr (R_hat, (kx_dx, ky_dx, kx_dy, ky_dy), (xy, fxy, invxy, invfxy)) \<Rightarrow>
                          Inr (RgbdNormalsImpl.extend base
                                 (SRI.fields R_hat kx_dx ky_dx kx_dy ky_dy xy fxy invxy invfxy)))
                else Inl Undefined_behaviour))"

text \<open>The constructor \<^verbatim>\<open>RgbdNormals::RgbdNormals\<close>.\<close>

definition RgbdNormals_new ::
  "int \<Rightarrow> int \<Rightarrow> int \<Rightarrow> Mat \<Rightarrow> int \<Rightarrow> RGBD_NORMALS_METHOD \<Rightarrow> error + RgbdNormals" where
  "RgbdNormals_new rows cols depth K_in window_size method =
     (if \<not> (depth = CV_32F \<or> depth = CV_64F) then Inl CV_Assert_failed
      else if \<not> (Mat_cols K_in = 3 \<and> Mat_rows K_in = 3) then Inl CV_Assert_failed
      else Inr \<lparr>cfg_rows = rows, cfg_cols = cols, cfg_depth = depth, cfg_K = K_in,
                cfg_window_size = window_size, cfg_method = method,
                rgbd_normals_impl = None\<rparr>)"

text \<open>\<^verbatim>\<open>RgbdNormals::initialize_normals_impl\<close>; its third assertion reads the member
  \<^verbatim>\<open>K_\<close> for the columns and the argument \<open>K\<close> for the rest. The estimator is
  constructed, then its \<^verbatim>\<open>cache()\<close> runs.\<close>

definition initialize_normals_impl ::
  "caches \<Rightarrow> RgbdNormals \<Rightarrow> int \<Rightarrow> int \<Rightarrow> int \<Rightarrow> Mat \<Rightarrow> int \<Rightarrow> RGBD_NORMALS_METHOD
     \<Rightarrow> error + RgbdNormals" where
  "initialize_normals_impl cs this rows cols depth K window_size method =
     (if \<not> (0 < rows \<and> 0 < cols \<and> (depth = CV_32F \<or> depth = CV_64F))
        then Inl CV_Assert_failed
      else if \<not> (window_size = 1 \<or> window_size = 3 \<or> window_size = 5 \<or> window_size = 7)
        then Inl CV_Assert_failed
      else if \<not> (Mat_cols (cfg_K this) = 3 \<and> Mat_rows K = 3
                   \<and> (Mat_depth K = CV_32F \<or> Mat_depth K = CV_64F))
        then Inl CV_Assert_failed
      else (case method of
          RGBD_NORMALS_METHOD_FALS \<Rightarrow>
            (case FALS_new cs
                    (RgbdNormalsImpl_new rows cols window_size depth K RGBD_NORMALS_METHOD_FALS) of
               Inl e \<Rightarrow> Inl e
             | Inr impl \<Rightarrow> Inr (this\<lparr>rgbd_normals_impl := Some (FALS_obj impl)\<rparr>))
        | RGBD_NORMALS_METHOD_LINEMOD \<Rightarrow>
            Inr (this\<lparr>rgbd_normals_impl := Some (LINEMOD_obj
              (RgbdNormalsImpl_new rows cols window_size depth K RGBD_NORMALS_METHOD_LINEMOD))\<rparr>)
        | RGBD_NORMALS_METHOD_SRI \<Rightarrow>
            (case SRI_new cs
                    (RgbdNormalsImpl_new rows cols window_size depth K RGBD_NORMALS_METHOD_SRI) of
               Inl e \<Rightarrow> Inl e
             | Inr impl \<Rightarrow> Inr (this\<lparr>rgbd_normals_impl := Some (SRI_obj impl)\<rparr>))
        | RGBD_NORMALS_METHOD_other n \<Rightarrow> Inl CV_Assert_failed))"

text \<open>\<^verbatim>\<open>delete_normals_impl\<close> frees the estimator.\<close>

definition delete_normals_impl :: "RgbdNormals \<Rightarrow> RgbdNormals" where
  "delete_normals_impl this = this\<lparr>rgbd_normals_impl := None\<rparr>"

text \<open>\<^verbatim>\<open>RgbdNormals::initialize\<close>.\<close>

definition initialize :: "caches \<Rightarrow> RgbdNormals \<Rightarrow> error + RgbdNormals" where
  "initialize cs this =
     (case rgbd_normals_impl this of
        None \<Rightarrow>
          initialize_normals_impl cs this (cfg_rows this) (cfg_cols this) (cfg_depth this)
            (cfg_K this) (cfg_window_size this) (cfg_method this)
      | Some impl \<Rightarrow>
          if \<not> validate (base_of impl) (cfg_rows this) (cfg_cols this) (cfg_depth this)
                 (cfg_K this) (cfg_window_size this) (cfg_method this)
          then initialize_normals_impl cs (delete_normals_impl this) (cfg_rows this)
                 (cfg_cols this) (cfg_depth this) (cfg_K this) (cfg_window_size this)
                 (cfg_method this)
          else Inr this)"

text \<open>A 3-channel \<open>cv::Mat\<close> read through \<^verbatim>\<open>ptr<Vec3T>\<close>, the three scalars of
  element \<open>k\<close> being at the indices \<open>3 * k\<close>, \<open>3 * k + 1\<close> and \<open>3 * k + 2\<close>, and the
  elements written back under the same header.\<close>

definition Vec3_at :: "Mat \<Rightarrow> nat \<Rightarrow> Vec3" where
  "Vec3_at m k = (Mat_data m ! (3 * k), Mat_data m ! (3 * k + 1), Mat_data m ! (3 * k + 2))"

definition as_Vec3 :: "Mat \<Rightarrow> Vec3 TMat" where
  "as_Vec3 m =
     \<lparr>Mat_rows = Mat_rows m, Mat_cols = Mat_cols m,
      Mat_data = map (Vec3_at m) [0..<length (Mat_data m) div 3]\<rparr>"

definition of_Vec3 :: "Mat \<Rightarrow> Vec3 TMat \<Rightarrow> Mat" where
  "of_Vec3 m t = m\<lparr>Mat_data := concat (map (\<lambda>(a, b, c). [a, b, c]) (Mat_data t))\<rparr>"

text \<open>
  \<^verbatim>\<open>cv::split\<close> and \<^verbatim>\<open>OutputArray::create\<close> belong to OpenCV and are parameters:
  \<open>split\<close> gives the vector of channels, \<open>create\<close> the output matrix of the
  requested rows, columns and type, from the one the caller passed.
\<close>

record opencv_core =
  split :: "Mat \<Rightarrow> Mat list"
  create :: "Mat \<Rightarrow> int \<Rightarrow> int \<Rightarrow> int \<Rightarrow> Mat"

text \<open>The assertions of \<^verbatim>\<open>operator()\<close> on the input, by method; there is no case
  for an unrecognised method.\<close>

fun input_accepted :: "RGBD_NORMALS_METHOD \<Rightarrow> Mat \<Rightarrow> bool" where
  "input_accepted RGBD_NORMALS_METHOD_FALS p =
     (Mat_channels p = 3 \<and> (Mat_depth p = CV_32F \<or> Mat_depth p = CV_64F))"
| "input_accepted RGBD_NORMALS_METHOD_LINEMOD p =
     ((Mat_channels p = 3 \<and> (Mat_depth p = CV_32F \<or> Mat_depth p = CV_64F))
      \<or> (Mat_channels p = 1
          \<and> (Mat_depth p = CV_16U \<or> Mat_depth p = CV_32F \<or> Mat_depth p = CV_64F)))"
| "input_accepted RGBD_NORMALS_METHOD_SRI p =
     (Mat_channels p = 3 \<and> (Mat_depth p = CV_32F \<or> Mat_depth p = CV_64F))"
| "input_accepted (RGBD_NORMALS_METHOD_other n) p = True"

text \<open>The locals \<open>points3d\<close> and \<open>radius\<close> of \<^verbatim>\<open>operator()\<close>: filled for SRI and
  FALS only, default-constructed otherwise.\<close>

definition points3d_and_radius :: "RgbdNormals \<Rightarrow> Mat \<Rightarrow> Mat \<times> fl TMat" where
  "points3d_and_radius this points3d_ori =
     (if cfg_method this = RGBD_NORMALS_METHOD_SRI \<or> cfg_method this = RGBD_NORMALS_METHOD_FALS
      then let points3d = (if Mat_depth points3d_ori = cfg_depth this then points3d_ori
                           else convertTo points3d_ori (cfg_depth this))
           in (points3d, computeRadius (as_Vec3 points3d))
      else (Mat_default, TMat.truncate Mat_default))"

text \<open>The local \<open>depth\<close> of the LINEMOD case of \<^verbatim>\<open>operator()\<close>:
  \<^verbatim>\<open>cv::split(points3d, channels); depth = channels[2];\<close> for a 3-channel input,
  the input itself otherwise.\<close>

definition LINEMOD_depth :: "opencv_core \<Rightarrow> Mat \<Rightarrow> Mat \<Rightarrow> error + Mat" where
  "LINEMOD_depth core points3d_ori points3d =
     (if Mat_channels points3d_ori = 3
      then let channels = split core points3d
           in if 2 < length channels then Inr (channels ! 2) else Inl Undefined_behaviour
      else Inr points3d_ori)"

text \<open>\<^verbatim>\<open>RgbdNormals::operator()\<close>: the dispatcher after the call, and the output.\<close>

definition operator_call ::
  "opencv \<Rightarrow> opencv_core \<Rightarrow> caches \<Rightarrow> RgbdNormals \<Rightarrow> Mat \<Rightarrow> Mat \<Rightarrow> error + RgbdNormals \<times> Mat" where
  "operator_call cv core cs this points3d_in normals_out =
     (let points3d_ori = points3d_in
      in if Mat_dims points3d_ori \<noteq> 2 then Inl CV_Assert_failed
         else if \<not> input_accepted (cfg_method this) points3d_ori then Inl CV_Assert_failed
         else (case initialize cs this of
             Inl e \<Rightarrow> Inl e
           | Inr this' \<Rightarrow>
              (case points3d_and_radius this' points3d_ori of (points3d, radius) \<Rightarrow>
                 let normals = create core normals_out (Mat_rows points3d_ori)
                                 (Mat_cols points3d_ori) (cfg_depth this' + (3 - 1) * 8)
                 in if Mat_empty points3d_in then Inr (this', normals)
                    else (case (cfg_method this', rgbd_normals_impl this') of
                        (RGBD_NORMALS_METHOD_FALS, Some (FALS_obj impl)) \<Rightarrow>
                          Inr (this', of_Vec3 normals
                                 (FALS_compute cv impl points3d radius (as_Vec3 normals)))
                      | (RGBD_NORMALS_METHOD_LINEMOD, Some (LINEMOD_obj impl)) \<Rightarrow>
                          (case LINEMOD_depth core points3d_ori points3d of
                             Inl e \<Rightarrow> Inl e
                           | Inr depth \<Rightarrow>
                               Inr (this', of_Vec3 normals
                                      (LINEMOD_compute impl depth (as_Vec3 normals))))
                      | (RGBD_NORMALS_METHOD_SRI, Some (SRI_obj impl)) \<Rightarrow>
                          Inr (this', of_Vec3 normals
                                 (SRI_compute cv impl points3d radius (as_Vec3 normals)))
                      | other \<Rightarrow> Inl Undefined_behaviour))))"

section \<open>Arithmetic on finite scalars\<close>

lemma fl_arith [simp]:
  "Fin x + Fin y = Fin (x + y)" "Fin x * Fin y = Fin (x * y)" "- Fin x = Fin (- x)"
  "Fin x - Fin y = Fin (x - y)"
  "(Fin x < Fin y) = (x < y)" "(Fin x \<le> Fin y) = (x \<le> y)"
  "(0::fl) = Fin 0" "(1::fl) = Fin 1"
  by (simp_all add: zero_fl_def one_fl_def minus_fl_def)


section \<open>The LINEMOD estimator: the pixels written\<close>

lemma fold_update_other:
  assumes "k \<notin> idx ` set ps"
  shows "fold (\<lambda>p buf. buf[idx p := val p]) ps buf ! k = buf ! k"
  using assms by (induction ps arbitrary: buf) auto

lemma fold_update_hit:
  assumes "p \<in> set ps" and "inj_on idx (set ps)" and "idx p < length buf"
  shows "fold (\<lambda>p buf. buf[idx p := val p]) ps buf ! idx p = val p"
  using assms
proof (induction ps arbitrary: buf)
  case Nil
  then show ?case by simp
next
  case (Cons q qs)
  show ?case
  proof (cases "p \<in> set qs")
    case True
    with Cons show ?thesis by simp
  next
    case False
    with Cons.prems have pq: "p = q" by simp
    have "idx p \<notin> idx ` set qs"
      using False Cons.prems(2) pq by (auto simp: inj_on_def)
    then have "fold (\<lambda>p buf. buf[idx p := val p]) qs (buf[idx q := val q]) ! idx p
               = (buf[idx q := val q]) ! idx p"
      by (rule fold_update_other)
    then show ?thesis using pq Cons.prems(3) by simp
  qed
qed

lemma set_pixels:
  "set (pixels rows cols) = {(x, y). margin_r \<le> x \<and> x < cols - margin_r - 1 \<and> margin_r \<le> y \<and> y < rows - margin_r - 1}"
proof -
  have "\<exists>y\<in>{margin_r..rows - margin_r - 2}.
          (a, b) \<in> (\<lambda>x. (x, y)) ` {margin_r..cols - margin_r - 2}"
    if "margin_r \<le> a" "a < cols - margin_r - 1" "margin_r \<le> b" "b < rows - margin_r - 1"
    for a b
    using that by (intro bexI [of _ b]) auto
  then show ?thesis by (auto simp: pixels_def)
qed

lemma pixel_index_eq:
  fixes x y x' y' cols :: int
  assumes "0 \<le> x" "x < cols" "0 \<le> y" "0 \<le> x'" "x' < cols" "0 \<le> y'"
    and e: "nat (y * cols + x) = nat (y' * cols + x')"
  shows "x = x' \<and> y = y'"
proof -
  from assms have "0 \<le> y * cols + x" "0 \<le> y' * cols + x'" by simp_all
  with e have eq: "y * cols + x = y' * cols + x'" by simp
  have "y = y'"
  proof (rule ccontr)
    assume "y \<noteq> y'"
    then consider "y < y'" | "y' < y" by linarith
    then show False
    proof cases
      case 1
      then have "y + 1 \<le> y'" by simp
      then have "(y + 1) * cols \<le> y' * cols" using assms by (simp add: mult_right_mono)
      then show False using eq assms by (simp add: algebra_simps)
    next
      case 2
      then have "y' + 1 \<le> y" by simp
      then have "(y' + 1) * cols \<le> y * cols" using assms by (simp add: mult_right_mono)
      then show False using eq assms by (simp add: algebra_simps)
    qed
  qed
  with eq show ?thesis by simp
qed

lemma pixel_index_less:
  fixes x y rows cols :: int
  assumes "0 \<le> x" "x < cols" "0 \<le> y" "y < rows"
  shows "nat (y * cols + x) < nat (rows * cols)"
proof -
  have "y + 1 \<le> rows" using assms by simp
  then have "(y + 1) * cols \<le> rows * cols" using assms by (simp add: mult_right_mono)
  then have "y * cols + x < rows * cols" using assms by (simp add: algebra_simps)
  moreover have "0 \<le> y * cols + x" using assms by simp
  ultimately show ?thesis by simp
qed

lemma computeImpl_data:
  "Mat_data (computeImpl cv impl depth normals) =
     fold (\<lambda>p buf. buf[(\<lambda>(x, y). nat (y * Mat_cols normals + x)) p
                       := (\<lambda>(x, y). signNormal (nor cv impl depth x y)) p])
       (pixels (impl_rows impl) (impl_cols impl)) (Mat_data normals)"
  by (simp add: computeImpl_def case_prod_unfold)

lemma computeImpl_visited:
  assumes c: "Mat_cols normals = impl_cols impl"
    and l: "length (Mat_data normals) = nat (impl_rows impl * impl_cols impl)"
    and v: "(x, y) \<in> set (pixels (impl_rows impl) (impl_cols impl))"
  shows "Mat_data (computeImpl cv impl depth normals) ! nat (y * impl_cols impl + x)
           = signNormal (nor cv impl depth x y)"
proof -
  let ?idx = "\<lambda>(x, y). nat (y * Mat_cols normals + x)"
  from v have b: "0 \<le> x" "x < impl_cols impl" "0 \<le> y" "y < impl_rows impl"
    by (auto simp: set_pixels margin_r_def)
  have inj: "inj_on ?idx (set (pixels (impl_rows impl) (impl_cols impl)))"
  proof (rule inj_onI, clarify)
    fix a b a' b'
    assume "(a, b) \<in> set (pixels (impl_rows impl) (impl_cols impl))"
      "(a', b') \<in> set (pixels (impl_rows impl) (impl_cols impl))"
      "nat (b * Mat_cols normals + a) = nat (b' * Mat_cols normals + a')"
    then show "a = a' \<and> b = b'"
      using pixel_index_eq [of a "impl_cols impl" b a' b'] c
      by (auto simp: set_pixels margin_r_def)
  qed
  have "?idx (x, y) < length (Mat_data normals)"
    using pixel_index_less [OF b] l c by simp
  from fold_update_hit [OF v inj this, of "\<lambda>(x, y). signNormal (nor cv impl depth x y)"]
  show ?thesis by (simp add: computeImpl_data c)
qed

lemma computeImpl_not_visited:
  assumes c: "Mat_cols normals = impl_cols impl"
    and b: "0 \<le> x" "x < impl_cols impl" "0 \<le> y"
    and v: "(x, y) \<notin> set (pixels (impl_rows impl) (impl_cols impl))"
  shows "Mat_data (computeImpl cv impl depth normals) ! nat (y * impl_cols impl + x)
           = Mat_data normals ! nat (y * impl_cols impl + x)"
proof -
  let ?idx = "\<lambda>(x, y). nat (y * Mat_cols normals + x)"
  have "nat (y * impl_cols impl + x) \<notin> ?idx ` set (pixels (impl_rows impl) (impl_cols impl))"
  proof
    assume "nat (y * impl_cols impl + x) \<in> ?idx ` set (pixels (impl_rows impl) (impl_cols impl))"
    then obtain a' b' where m: "(a', b') \<in> set (pixels (impl_rows impl) (impl_cols impl))"
      and e: "nat (y * impl_cols impl + x) = nat (b' * impl_cols impl + a')"
      using c by auto
    from m have "0 \<le> a'" "a' < impl_cols impl" "0 \<le> b'" by (auto simp: set_pixels margin_r_def)
    with pixel_index_eq [OF b(1) b(2) b(3) _ _ _ e] have "x = a' \<and> y = b'" by simp
    with m v show False by simp
  qed
  then show ?thesis unfolding computeImpl_data by (rule fold_update_other)
qed

text \<open>
  Claim C5, as the code has it. The pixel loops of \<^verbatim>\<open>computeImpl\<close> stop at
  \<open>rows_ - r - 1\<close> and \<open>cols_ - r - 1\<close>: the estimator stores \<open>signNormal(nor)\<close> at every
  pixel \<open>(x, y)\<close> with \<open>5 \<le> x < cols - 6\<close> and \<open>5 \<le> y < rows - 6\<close>, and leaves every other
  pixel of the output as it was.
\<close>

theorem LINEMOD_writes_interior:
  assumes "Mat_cols normals = impl_cols impl"
    and "length (Mat_data normals) = nat (impl_rows impl * impl_cols impl)"
    and "0 \<le> x" and "x < impl_cols impl" and "0 \<le> y" and "y < impl_rows impl"
  shows "((x, y) \<in> set (pixels (impl_rows impl) (impl_cols impl))
            \<longleftrightarrow> 5 \<le> x \<and> x < impl_cols impl - 6 \<and> 5 \<le> y \<and> y < impl_rows impl - 6)
       \<and> Mat_data (computeImpl cv impl depth normals) ! nat (y * impl_cols impl + x)
           = (if 5 \<le> x \<and> x < impl_cols impl - 6 \<and> 5 \<le> y \<and> y < impl_rows impl - 6
              then signNormal (nor cv impl depth x y)
              else Mat_data normals ! nat (y * impl_cols impl + x))"
proof -
  define C where "C \<longleftrightarrow> 5 \<le> x \<and> x < impl_cols impl - 6 \<and> 5 \<le> y \<and> y < impl_rows impl - 6"
  have m: "(x, y) \<in> set (pixels (impl_rows impl) (impl_cols impl)) \<longleftrightarrow> C"
    by (auto simp: set_pixels margin_r_def C_def)
  have "Mat_data (computeImpl cv impl depth normals) ! nat (y * impl_cols impl + x)
           = (if C then signNormal (nor cv impl depth x y)
              else Mat_data normals ! nat (y * impl_cols impl + x))"
  proof (cases C)
    case True
    then have "(x, y) \<in> set (pixels (impl_rows impl) (impl_cols impl))" using m by simp
    from computeImpl_visited [OF assms(1,2) this] True show ?thesis by simp
  next
    case False
    then have "(x, y) \<notin> set (pixels (impl_rows impl) (impl_cols impl))" using m by simp
    from computeImpl_not_visited [OF assms(1,3,4,5) this] False show ?thesis by simp
  qed
  with m show ?thesis unfolding C_def by blast
qed

theorem LINEMOD_writes_interior_witness:
  "(let impl = \<lparr>impl_rows = 12, impl_cols = 12, impl_depth = CV_32F,
         impl_K = \<lparr>Mat_rows = 3, Mat_cols = 3, Mat_data = map Fin [1, 0, 0, 0, 1, 0, 0, 0, 1],
                    Mat_dims = 2, Mat_depth = CV_32F, Mat_channels = 1\<rparr>,
         impl_K_ori = \<lparr>Mat_rows = 3, Mat_cols = 3, Mat_data = map Fin [1, 0, 0, 0, 1, 0, 0, 0, 1],
                    Mat_dims = 2, Mat_depth = CV_32F, Mat_channels = 1\<rparr>,
         impl_window_size = 5, impl_method = RGBD_NORMALS_METHOD_LINEMOD\<rparr>;
        depth = \<lparr>Mat_rows = 12, Mat_cols = 12, Mat_data = replicate 144 (Fin 1000)\<rparr>;
        normals = \<lparr>Mat_rows = 12, Mat_cols = 12, Mat_data = replicate 144 (Fin 7, Fin 7, Fin 7)\<rparr>
    in (5, 5) \<in> set (pixels 12 12)
       \<and> Mat_data (computeImpl conversions_float impl depth normals) ! nat (5 * 12 + 5)
           = signNormal (nor conversions_float impl depth 5 5))"
  using LINEMOD_writes_interior [of
      "\<lparr>Mat_rows = 12, Mat_cols = 12, Mat_data = replicate 144 (Fin 7, Fin 7, Fin 7)\<rparr>"
      "\<lparr>impl_rows = 12, impl_cols = 12, impl_depth = CV_32F,
         impl_K = \<lparr>Mat_rows = 3, Mat_cols = 3, Mat_data = map Fin [1, 0, 0, 0, 1, 0, 0, 0, 1],
                    Mat_dims = 2, Mat_depth = CV_32F, Mat_channels = 1\<rparr>,
         impl_K_ori = \<lparr>Mat_rows = 3, Mat_cols = 3, Mat_data = map Fin [1, 0, 0, 0, 1, 0, 0, 0, 1],
                    Mat_dims = 2, Mat_depth = CV_32F, Mat_channels = 1\<rparr>,
         impl_window_size = 5, impl_method = RGBD_NORMALS_METHOD_LINEMOD\<rparr>"
      5 5 conversions_float
      "\<lparr>Mat_rows = 12, Mat_cols = 12, Mat_data = replicate 144 (Fin 1000)\<rparr>"]
  by (simp add: Let_def)

lemma pixels_12: "pixels 12 12 = [(5, 5)]"
  by (simp add: pixels_def margin_r_def upto.simps)

text \<open>
  The margin of claim C5 as stated, \<open>5 \<le> x < cols - 5\<close> and \<open>5 \<le> y < rows - 5\<close>, is one
  pixel too wide: in a 12 by 12 image the pixel \<open>(6, 6)\<close> lies inside it, is not visited,
  and keeps what the output held before.
\<close>

theorem LINEMOD_margin_counterexample:
  "(5::int) \<le> 6 \<and> (6::int) < 12 - 5
   \<and> (6, 6) \<notin> set (pixels 12 12)
   \<and> Mat_data (computeImpl conversions_float
        \<lparr>impl_rows = 12, impl_cols = 12, impl_depth = CV_32F,
         impl_K = \<lparr>Mat_rows = 3, Mat_cols = 3, Mat_data = map Fin [1, 0, 0, 0, 1, 0, 0, 0, 1],
                    Mat_dims = 2, Mat_depth = CV_32F, Mat_channels = 1\<rparr>,
         impl_K_ori = \<lparr>Mat_rows = 3, Mat_cols = 3, Mat_data = map Fin [1, 0, 0, 0, 1, 0, 0, 0, 1],
                    Mat_dims = 2, Mat_depth = CV_32F, Mat_channels = 1\<rparr>,
         impl_window_size = 5, impl_method = RGBD_NORMALS_METHOD_LINEMOD\<rparr>
        \<lparr>Mat_rows = 12, Mat_cols = 12, Mat_data = replicate 144 (Fin 1000)\<rparr>
        \<lparr>Mat_rows = 12, Mat_cols = 12, Mat_data = replicate 144 (Fin 7, Fin 7, Fin 7)\<rparr>)
      ! nat (6 * 12 + 6) = (Fin 7, Fin 7, Fin 7)"
  using computeImpl_not_visited [of
      "\<lparr>Mat_rows = 12, Mat_cols = 12, Mat_data = replicate 144 (Fin 7, Fin 7, Fin 7)\<rparr>"
      "\<lparr>impl_rows = 12, impl_cols = 12, impl_depth = CV_32F,
         impl_K = \<lparr>Mat_rows = 3, Mat_cols = 3, Mat_data = map Fin [1, 0, 0, 0, 1, 0, 0, 0, 1],
                    Mat_dims = 2, Mat_depth = CV_32F, Mat_channels = 1\<rparr>,
         impl_K_ori = \<lparr>Mat_rows = 3, Mat_cols = 3, Mat_data = map Fin [1, 0, 0, 0, 1, 0, 0, 0, 1],
                    Mat_dims = 2, Mat_depth = CV_32F, Mat_channels = 1\<rparr>,
         impl_window_size = 5, impl_method = RGBD_NORMALS_METHOD_LINEMOD\<rparr>"
      6 6 conversions_float
      "\<lparr>Mat_rows = 12, Mat_cols = 12, Mat_data = replicate 144 (Fin 1000)\<rparr>"]
  by (simp add: pixels_12)

section \<open>The LINEMOD estimator: the normal equations\<close>

lemma sample_grid_eq: "sample_grid = nine_samples"
  by (simp add: sample_grid_def sample_coords_def square_size_def sample_step_def margin_r_def
      upt_conv_Cons nine_samples_def)

lemma nsamples: "nat (square_size * square_size) = length sample_grid"
  by (simp add: square_size_def sample_step_def margin_r_def sample_grid_eq nine_samples_def)

lemma fold_nth:
  "fold (\<lambda>i. f (xs ! i)) [0..<length xs] = fold f xs"
proof -
  have "fold (\<lambda>i. f (xs ! i)) [0..<length xs] = fold f (map ((!) xs) [0..<length xs])"
    by (simp add: fold_map comp_def)
  then show ?thesis by (simp add: map_nth)
qed

lemma accumulate_grid:
  "accumulate cv cols depth p =
     fold (\<lambda>(i, j) (A0, A1, A3, b0, b1).
             let delta = ContainerDepth cv (depth ! nat (p + (j * cols + i)))
                           - ContainerDepth cv (depth ! nat p)
             in if of_long cv 50 < \<bar>delta\<bar> then (A0, A1, A3, b0, b1)
                else (A0 + i * i, A1 + i * j, A3 + j * j,
                      b0 + of_long cv i * delta, b1 + of_long cv j * delta))
          sample_grid (0, 0, 0, 0, 0)"
proof -
  let ?G = "\<lambda>(i, j) (A0, A1, A3, b0, b1).
             let delta = ContainerDepth cv (depth ! nat (p + (j * cols + i)))
                           - ContainerDepth cv (depth ! nat p)
             in if of_long cv 50 < \<bar>delta\<bar> then (A0, A1, A3, b0, b1)
                else (A0 + i * i, A1 + i * j, A3 + j * j,
                      b0 + of_long cv i * delta, b1 + of_long cv j * delta)"
  have "accumulate cv cols depth p
      = fold (\<lambda>i. ?G (sample_grid ! i)) [0..<length sample_grid] (0, 0, 0, 0, 0)"
    unfolding accumulate_def nsamples
    by (rule fold_cong)
       (auto simp: offsets_def offsets_x_def offsets_y_def offsets_x_x_def offsets_x_y_def
          offsets_y_y_def split: prod.splits cong: if_cong)
  then show ?thesis by (simp only: fold_nth)
qed

lemma fold_kept:
  fixes fA fB fC :: "'s \<Rightarrow> int" and g h :: "'s \<Rightarrow> 'c::plus"
  shows "fold (\<lambda>s (A0, A1, A3, b0, b1).
             if P s then (A0, A1, A3, b0, b1)
             else (A0 + fA s, A1 + fB s, A3 + fC s, b0 + g s, b1 + h s)) xs (a0, a1, a3, c0, c1)
       = (a0 + sum_list (map fA (filter (\<lambda>s. \<not> P s) xs)),
          a1 + sum_list (map fB (filter (\<lambda>s. \<not> P s) xs)),
          a3 + sum_list (map fC (filter (\<lambda>s. \<not> P s) xs)),
          foldl (\<lambda>b s. b + g s) c0 (filter (\<lambda>s. \<not> P s) xs),
          foldl (\<lambda>b s. b + h s) c1 (filter (\<lambda>s. \<not> P s) xs))"
  by (induction xs arbitrary: a0 a1 a3 c0 c1) (simp_all add: add.assoc)

lemma accumulate_kept:
  "accumulate cv cols depth p =
     (\<Sum>(i, j)\<leftarrow>kept_samples cv cols depth p. i * i,
      \<Sum>(i, j)\<leftarrow>kept_samples cv cols depth p. i * j,
      \<Sum>(i, j)\<leftarrow>kept_samples cv cols depth p. j * j,
      foldl (\<lambda>b (i, j). b + of_long cv i * sample_delta cv cols depth p (i, j)) 0
        (kept_samples cv cols depth p),
      foldl (\<lambda>b (i, j). b + of_long cv j * sample_delta cv cols depth p (i, j)) 0
        (kept_samples cv cols depth p))"
proof -
  have "accumulate cv cols depth p =
     fold (\<lambda>s (A0, A1, A3, b0, b1).
             if of_long cv 50 < \<bar>sample_delta cv cols depth p s\<bar> then (A0, A1, A3, b0, b1)
             else (A0 + (case s of (i, j) \<Rightarrow> i * i), A1 + (case s of (i, j) \<Rightarrow> i * j),
                   A3 + (case s of (i, j) \<Rightarrow> j * j),
                   b0 + (case s of (i, j) \<Rightarrow> of_long cv i * sample_delta cv cols depth p (i, j)),
                   b1 + (case s of (i, j) \<Rightarrow> of_long cv j * sample_delta cv cols depth p (i, j))))
          sample_grid (0, 0, 0, 0, 0)"
    unfolding accumulate_grid
    by (rule fold_cong) (auto simp: sample_delta_def Let_def fun_eq_iff)
  then show ?thesis
    unfolding fold_kept kept_samples_def sample_grid_eq by (simp add: case_prod_unfold)
qed

lemma nor_kept:
  "nor cv impl depth x y =
     (let p = y * Mat_cols depth + x;
          \<Delta> = sample_delta cv (impl_cols impl) (Mat_data depth) p;
          S = kept_samples cv (impl_cols impl) (Mat_data depth) p;
          A00 = (\<Sum>(i, j)\<leftarrow>S. i * i);
          A01 = (\<Sum>(i, j)\<leftarrow>S. i * j);
          A11 = (\<Sum>(i, j)\<leftarrow>S. j * j);
          b0 = foldl (\<lambda>b (i, j). b + of_long cv i * \<Delta> (i, j)) 0 S;
          b1 = foldl (\<lambda>b (i, j). b + of_long cv j * \<Delta> (i, j)) 0 S;
          dx = of_long cv A11 * b0 - of_long cv A01 * b1;
          dy = of_long cv (- A01) * b0 + of_long cv A00 * b1;
          det = A00 * A11 - A01 * A01;
          d = ContainerDepth cv (Mat_data depth ! nat p);
          K_inv = K_inv_by_hand (Matx33_of (impl_K impl))
      in cross
           (multiply_by_K_inv K_inv (to_T cv (d * of_long cv det + of_long cv (x + 1) * dx))
              (to_T cv (of_long cv y * dx)) (to_T cv dx))
           (multiply_by_K_inv K_inv (to_T cv (of_long cv x * dy))
              (to_T cv (d * of_long cv det + of_long cv (y + 1) * dy)) (to_T cv dy)))"
  unfolding nor_def accumulate_kept by (simp add: Let_def)

lemma kept_long:
  "kept_samples conversions_ushort_long cols depth p
     = filter (\<lambda>s. \<bar>sample_delta conversions_ushort_long cols depth p s\<bar> \<le> 50) nine_samples"
  unfolding kept_samples_def
  by (rule filter_cong) (simp_all add: conversions_ushort_long_def not_less)

lemma not_above_fl:
  "(\<not> Fin 50 < \<bar>d\<bar>) = (\<bar>d\<bar> \<le> Fin 50 \<or> cvIsNaN d)"
  by (cases d) auto

lemma kept_float:
  "kept_samples conversions_float cols depth p
     = filter (\<lambda>s. \<bar>sample_delta conversions_float cols depth p s\<bar> \<le> Fin 50
                    \<or> cvIsNaN (sample_delta conversions_float cols depth p s)) nine_samples"
  unfolding kept_samples_def
  by (rule filter_cong) (simp_all add: conversions_float_def not_above_fl)

lemma foldl_sum_list:
  fixes f :: "'s \<Rightarrow> int"
  shows "foldl (\<lambda>b s. b + f s) c xs = c + sum_list (map f xs)"
  by (induction xs arbitrary: c) simp_all

text \<open>
  Claim C6, as the code has it. For the pixel \<open>(x, y)\<close>, the accumulation loop of
  \<^verbatim>\<open>computeImpl\<close> sums \<open>i * i\<close>, \<open>i * j\<close>, \<open>j * j\<close>, \<open>i * \<Delta>\<close> and \<open>j * \<Delta>\<close>, in the
  order of the loop, over exactly those of the nine samples \<open>(i, j)\<close> whose depth
  difference \<open>\<Delta>\<close> from the centre is not above 50; the gradients are
  \<open>dx = A11 * b0 - A01 * b1\<close> and \<open>dy = - A01 * b0 + A00 * b1\<close>, with no division by the
  determinant \<open>det\<close>; the vector handed to \<^verbatim>\<open>signNormal\<close> is the cross product of
  \<open>K_inv * (d * det + (x + 1) * dx, y * dx, dx)\<close> and
  \<open>K_inv * (x * dy, d * det + (y + 1) * dy, dy)\<close>, and its result is what a visited pixel
  stores. This holds whatever the arithmetic of \<open>ContainerDepth\<close> is. For \<open>long\<close> the
  samples kept are those with \<open>\<bar>\<Delta>\<bar> \<le> 50\<close>, and the five sums are the sums of the
  claim; for \<open>float\<close> and \<open>double\<close> they are those with \<open>\<bar>\<Delta>\<bar> \<le> 50\<close> and those whose
  \<open>\<Delta>\<close> is NaN.
\<close>

theorem LINEMOD_normal_equations:
  fixes cv :: "('d, 'c::{zero,plus,minus,times,abs,ord}) conversions"
  shows
    "(let p = y * Mat_cols depth + x;
          \<Delta> = sample_delta cv (impl_cols impl) (Mat_data depth) p;
          S = kept_samples cv (impl_cols impl) (Mat_data depth) p;
          A00 = (\<Sum>(i, j)\<leftarrow>S. i * i);
          A01 = (\<Sum>(i, j)\<leftarrow>S. i * j);
          A11 = (\<Sum>(i, j)\<leftarrow>S. j * j);
          b0 = foldl (\<lambda>b (i, j). b + of_long cv i * \<Delta> (i, j)) 0 S;
          b1 = foldl (\<lambda>b (i, j). b + of_long cv j * \<Delta> (i, j)) 0 S;
          dx = of_long cv A11 * b0 - of_long cv A01 * b1;
          dy = of_long cv (- A01) * b0 + of_long cv A00 * b1;
          det = A00 * A11 - A01 * A01;
          d = ContainerDepth cv (Mat_data depth ! nat p);
          K_inv = K_inv_by_hand (Matx33_of (impl_K impl))
      in accumulate cv (impl_cols impl) (Mat_data depth) p = (A00, A01, A11, b0, b1)
         \<and> gradient cv (accumulate cv (impl_cols impl) (Mat_data depth) p) = (dx, dy)
         \<and> nor cv impl depth x y =
             cross
               (multiply_by_K_inv K_inv (to_T cv (d * of_long cv det + of_long cv (x + 1) * dx))
                  (to_T cv (of_long cv y * dx)) (to_T cv dx))
               (multiply_by_K_inv K_inv (to_T cv (of_long cv x * dy))
                  (to_T cv (d * of_long cv det + of_long cv (y + 1) * dy)) (to_T cv dy))
         \<and> (Mat_cols normals = impl_cols impl
              \<and> length (Mat_data normals) = nat (impl_rows impl * impl_cols impl)
              \<and> (x, y) \<in> set (pixels (impl_rows impl) (impl_cols impl))
            \<longrightarrow> Mat_data (computeImpl cv impl depth normals) ! nat (y * impl_cols impl + x)
                  = signNormal (nor cv impl depth x y)))
     \<and> (let \<Delta> = sample_delta conversions_ushort_long cols udepth q;
            S = filter (\<lambda>s. \<bar>\<Delta> s\<bar> \<le> 50) nine_samples
        in accumulate conversions_ushort_long cols udepth q =
             (\<Sum>(i, j)\<leftarrow>S. i * i, \<Sum>(i, j)\<leftarrow>S. i * j, \<Sum>(i, j)\<leftarrow>S. j * j,
              \<Sum>(i, j)\<leftarrow>S. i * \<Delta> (i, j), \<Sum>(i, j)\<leftarrow>S. j * \<Delta> (i, j)))
     \<and> (let \<Delta> = sample_delta conversions_float cols fdepth q;
            S = filter (\<lambda>s. \<bar>\<Delta> s\<bar> \<le> Fin 50 \<or> cvIsNaN (\<Delta> s)) nine_samples
        in accumulate conversions_float cols fdepth q =
             (\<Sum>(i, j)\<leftarrow>S. i * i, \<Sum>(i, j)\<leftarrow>S. i * j, \<Sum>(i, j)\<leftarrow>S. j * j,
              foldl (\<lambda>b (i, j). b + Fin (of_int i) * \<Delta> (i, j)) 0 S,
              foldl (\<lambda>b (i, j). b + Fin (of_int j) * \<Delta> (i, j)) 0 S))"
proof (intro conjI)
  show "let p = y * Mat_cols depth + x;
          \<Delta> = sample_delta cv (impl_cols impl) (Mat_data depth) p;
          S = kept_samples cv (impl_cols impl) (Mat_data depth) p;
          A00 = (\<Sum>(i, j)\<leftarrow>S. i * i);
          A01 = (\<Sum>(i, j)\<leftarrow>S. i * j);
          A11 = (\<Sum>(i, j)\<leftarrow>S. j * j);
          b0 = foldl (\<lambda>b (i, j). b + of_long cv i * \<Delta> (i, j)) 0 S;
          b1 = foldl (\<lambda>b (i, j). b + of_long cv j * \<Delta> (i, j)) 0 S;
          dx = of_long cv A11 * b0 - of_long cv A01 * b1;
          dy = of_long cv (- A01) * b0 + of_long cv A00 * b1;
          det = A00 * A11 - A01 * A01;
          d = ContainerDepth cv (Mat_data depth ! nat p);
          K_inv = K_inv_by_hand (Matx33_of (impl_K impl))
      in accumulate cv (impl_cols impl) (Mat_data depth) p = (A00, A01, A11, b0, b1)
         \<and> gradient cv (accumulate cv (impl_cols impl) (Mat_data depth) p) = (dx, dy)
         \<and> nor cv impl depth x y =
             cross
               (multiply_by_K_inv K_inv (to_T cv (d * of_long cv det + of_long cv (x + 1) * dx))
                  (to_T cv (of_long cv y * dx)) (to_T cv dx))
               (multiply_by_K_inv K_inv (to_T cv (of_long cv x * dy))
                  (to_T cv (d * of_long cv det + of_long cv (y + 1) * dy)) (to_T cv dy))
         \<and> (Mat_cols normals = impl_cols impl
              \<and> length (Mat_data normals) = nat (impl_rows impl * impl_cols impl)
              \<and> (x, y) \<in> set (pixels (impl_rows impl) (impl_cols impl))
            \<longrightarrow> Mat_data (computeImpl cv impl depth normals) ! nat (y * impl_cols impl + x)
                  = signNormal (nor cv impl depth x y))"
    using accumulate_kept [of cv "impl_cols impl" "Mat_data depth" "y * Mat_cols depth + x"]
      nor_kept [of cv impl depth x y] computeImpl_visited [of normals impl x y cv depth]
    by (simp add: Let_def)
next
  show "let \<Delta> = sample_delta conversions_ushort_long cols udepth q;
            S = filter (\<lambda>s. \<bar>\<Delta> s\<bar> \<le> 50) nine_samples
        in accumulate conversions_ushort_long cols udepth q =
             (\<Sum>(i, j)\<leftarrow>S. i * i, \<Sum>(i, j)\<leftarrow>S. i * j, \<Sum>(i, j)\<leftarrow>S. j * j,
              \<Sum>(i, j)\<leftarrow>S. i * \<Delta> (i, j), \<Sum>(i, j)\<leftarrow>S. j * \<Delta> (i, j))"
    unfolding Let_def accumulate_kept [of conversions_ushort_long] kept_long [symmetric]
    by (simp add: case_prod_unfold foldl_sum_list conversions_ushort_long_def)
next
  show "let \<Delta> = sample_delta conversions_float cols fdepth q;
            S = filter (\<lambda>s. \<bar>\<Delta> s\<bar> \<le> Fin 50 \<or> cvIsNaN (\<Delta> s)) nine_samples
        in accumulate conversions_float cols fdepth q =
             (\<Sum>(i, j)\<leftarrow>S. i * i, \<Sum>(i, j)\<leftarrow>S. i * j, \<Sum>(i, j)\<leftarrow>S. j * j,
              foldl (\<lambda>b (i, j). b + Fin (of_int i) * \<Delta> (i, j)) 0 S,
              foldl (\<lambda>b (i, j). b + Fin (of_int j) * \<Delta> (i, j)) 0 S)"
    unfolding Let_def accumulate_kept [of conversions_float] kept_float [symmetric]
    by (simp add: conversions_float_def)
qed

text \<open>
  Claim C6 as stated keeps the samples with \<open>\<bar>\<Delta>\<bar> \<le> 50\<close>; the loop skips those with
  \<open>\<bar>\<Delta>\<bar> > 50\<close>, which is not the same for \<open>float\<close> and \<open>double\<close>. In a 12 by 12 image
  of depth 1000 whose first pixel is NaN, the sample \<open>(-5, -5)\<close> of the pixel \<open>(5, 5)\<close>
  has a NaN difference: it is not among the samples with \<open>\<bar>\<Delta>\<bar> \<le> 50\<close>, whose \<open>i * i\<close>
  sum to 125, and the loop keeps it and accumulates 150.
\<close>

theorem LINEMOD_NaN_sample_counterexample:
  "\<not> \<bar>sample_delta conversions_float 12 ((replicate 144 (Fin 1000))[0 := NaN]) 65 (-5, -5)\<bar>
       \<le> Fin 50
   \<and> (\<Sum>(i, j)\<leftarrow>filter
          (\<lambda>s. \<bar>sample_delta conversions_float 12 ((replicate 144 (Fin 1000))[0 := NaN]) 65 s\<bar>
                 \<le> Fin 50) nine_samples. i * i) = 125
   \<and> fst (accumulate conversions_float 12 ((replicate 144 (Fin 1000))[0 := NaN]) 65) = 150"
  by (simp add: accumulate_kept kept_samples_def sample_delta_def nine_samples_def
      conversions_float_def minus_fl_def)

theorem LINEMOD_normal_equations_witness:
  "(let impl = \<lparr>impl_rows = 12, impl_cols = 12, impl_depth = CV_64F,
         impl_K = \<lparr>Mat_rows = 3, Mat_cols = 3, Mat_data = map Fin [1, 0, 0, 0, 1, 0, 0, 0, 1],
                    Mat_dims = 2, Mat_depth = CV_64F, Mat_channels = 1\<rparr>,
         impl_K_ori = \<lparr>Mat_rows = 3, Mat_cols = 3, Mat_data = map Fin [1, 0, 0, 0, 1, 0, 0, 0, 1],
                    Mat_dims = 2, Mat_depth = CV_64F, Mat_channels = 1\<rparr>,
         impl_window_size = 5, impl_method = RGBD_NORMALS_METHOD_LINEMOD\<rparr>;
        depth = \<lparr>Mat_rows = 12, Mat_cols = 12,
                  Mat_data = (replicate 144 (Fin 1))[0 := Fin 100, 70 := Fin 3]\<rparr>;
        normals = \<lparr>Mat_rows = 12, Mat_cols = 12, Mat_data = replicate 144 (Fin 7, Fin 7, Fin 7)\<rparr>
    in (5, 5) \<in> set (pixels 12 12)
       \<and> sample_delta conversions_ushort_long 12 (Mat_data depth) 65 (-5, -5) = 99
       \<and> sample_delta conversions_ushort_long 12 (Mat_data depth) 65 (5, 0) = 2
       \<and> kept_samples conversions_ushort_long 12 (Mat_data depth) 65
           = [(0, -5), (5, -5), (-5, 0), (0, 0), (5, 0), (-5, 5), (0, 5), (5, 5)]
       \<and> accumulate conversions_ushort_long 12 (Mat_data depth) 65 = (125, - 25, 125, 10, 0)
       \<and> gradient conversions_ushort_long
            (accumulate conversions_ushort_long 12 (Mat_data depth) 65) = (1250, 250)
       \<and> nor conversions_ushort_long impl depth 5 5
           = (Fin (- 19062500), Fin (- 4062500), Fin 363437500)
       \<and> Mat_data (computeImpl conversions_ushort_long impl depth normals) ! nat (5 * 12 + 5)
           = signNormal (nor conversions_ushort_long impl depth 5 5))"
proof -
  let ?impl = "\<lparr>impl_rows = 12, impl_cols = 12, impl_depth = CV_64F,
         impl_K = \<lparr>Mat_rows = 3, Mat_cols = 3, Mat_data = map Fin [1, 0, 0, 0, 1, 0, 0, 0, 1],
                    Mat_dims = 2, Mat_depth = CV_64F, Mat_channels = 1\<rparr>,
         impl_K_ori = \<lparr>Mat_rows = 3, Mat_cols = 3, Mat_data = map Fin [1, 0, 0, 0, 1, 0, 0, 0, 1],
                    Mat_dims = 2, Mat_depth = CV_64F, Mat_channels = 1\<rparr>,
         impl_window_size = 5, impl_method = RGBD_NORMALS_METHOD_LINEMOD\<rparr>"
  let ?depth = "\<lparr>Mat_rows = 12, Mat_cols = 12,
                  Mat_data = (replicate 144 (Fin 1))[0 := Fin 100, 70 := Fin 3]\<rparr>"
  let ?normals = "\<lparr>Mat_rows = 12, Mat_cols = 12,
                    Mat_data = replicate 144 (Fin 7, Fin 7, Fin 7)\<rparr>"
  have k: "kept_samples conversions_ushort_long 12 ((replicate 144 (Fin 1))[0 := Fin 100, 70 := Fin 3]) 65
           = [(0, -5), (5, -5), (-5, 0), (0, 0), (5, 0), (-5, 5), (0, 5), (5, 5)]"
    by (simp add: kept_samples_def sample_delta_def nine_samples_def conversions_ushort_long_def)
  have d: "sample_delta conversions_ushort_long 12 ((replicate 144 (Fin 1))[0 := Fin 100, 70 := Fin 3]) 65
           = (\<lambda>(i, j). fl_to_long (((replicate 144 (Fin 1))[0 := Fin 100, 70 := Fin 3]) ! nat (65 + (j * 12 + i))) - 1)"
    by (simp add: sample_delta_def conversions_ushort_long_def fun_eq_iff)
  have p: "(5, 5) \<in> set (pixels 12 12)"
    by (simp add: pixels_12)
  have c: "ContainerDepth conversions_ushort_long = fl_to_long"
    "of_long conversions_ushort_long = (\<lambda>n. n)"
    "to_T conversions_ushort_long = (\<lambda>n. Fin (of_int n))"
    by (simp_all add: conversions_ushort_long_def)
  from LINEMOD_normal_equations [of 5 ?depth 5 conversions_ushort_long ?impl ?normals,
      THEN conjunct1] p
  show ?thesis
    unfolding Let_def
    by (simp add: k d c Matx33_of_def)
qed

section \<open>The FALS estimator, pixel by pixel\<close>

lemma fold_upt_update_nth:
  assumes "k < n" and "k < length buf"
  shows "fold (\<lambda>k buf. buf[k := f k (buf ! k)]) [0..<n] buf ! k = f k (buf ! k)"
proof -
  have other: "fold (\<lambda>k buf. buf[k := f k (buf ! k)]) ks b ! j = b ! j" if "j \<notin> set ks"
    for ks b j
    using that by (induction ks arbitrary: b) auto
  have len: "length (fold (\<lambda>k buf. buf[k := f k (buf ! k)]) ks b) = length b" for ks b
    by (induction ks arbitrary: b) auto
  from assms(1) have split: "[0..<n] = [0..<k] @ k # [Suc k..<n]"
    by (metis le_add1 less_imp_add_positive upt_add_eq_append upt_conv_Cons zero_le
        add.commute add_0 le0 less_eq_Suc_le upt_eq_Cons_conv)
  let ?b1 = "fold (\<lambda>k buf. buf[k := f k (buf ! k)]) [0..<k] buf"
  have b1: "?b1 ! k = buf ! k" by (rule other) simp
  have l1: "k < length ?b1" using assms(2) by (simp add: len)
  have "fold (\<lambda>k buf. buf[k := f k (buf ! k)]) [0..<n] buf ! k
      = fold (\<lambda>k buf. buf[k := f k (buf ! k)]) [Suc k..<n] (?b1[k := f k (?b1 ! k)]) ! k"
    by (simp add: split)
  also have "\<dots> = (?b1[k := f k (?b1 ! k)]) ! k" by (rule other) simp
  also have "\<dots> = f k (buf ! k)" using l1 b1 by simp
  finally show ?thesis .
qed

lemma FALS_compute_nth:
  assumes "k < nat (impl_rows impl * impl_cols impl)" and "k < length (Mat_data normals)"
  shows "Mat_data (FALS_compute cv impl points3d r normals) ! k =
     (if cvIsNaN (Mat_data r ! k)
      then (Mat_data r ! k, Mat_data r ! k, Mat_data r ! k)
      else signNormal (matvec (Mat_data (FALS_M_inv impl) ! k)
             (Mat_data (boxFilter cv (FALS_B impl r) (impl_window_size impl)) ! k)))"
  using fold_upt_update_nth [OF assms, of "\<lambda>k old.
      if cvIsNaN (Mat_data r ! k)
      then (Mat_data r ! k, Mat_data r ! k, Mat_data r ! k)
      else signNormal (matvec (Mat_data (FALS_M_inv impl) ! k)
             (Mat_data (boxFilter cv (FALS_B impl r) (impl_window_size impl)) ! k))"]
  by (simp add: FALS_compute_def Let_def)


text \<open>
  Claim C10. \<^verbatim>\<open>FALS::compute\<close> never reads its point field: two calls with the same
  radius grid, the same output buffer and the same cached \<open>V\<close> and \<open>M_inv\<close> return
  the same normals whatever the two point fields are, and whatever the matrix \<open>K\<close>, the
  precision tag and the method tag of the estimator are.
\<close>

theorem FALS_ignores_points:
  "FALS_compute cv (impl\<lparr>impl_depth := d, impl_K := K, impl_K_ori := K_ori, impl_method := m\<rparr>)
       points3d' r normals
     = FALS_compute cv impl points3d r normals"
  by (simp add: FALS_compute_def FALS_B_def cong: if_cong)

section \<open>The dispatcher: configuration and cache validity\<close>

lemma validate_cols_irrelevant:
  "validate impl rows cols depth K_ori window_size method
     = validate impl rows cols' depth K_ori window_size method"
  by (simp add: validate_def)


lemma Matx33_checked_convertTo:
  "Matx33_checked (convertTo K depth) =
     (if Mat_data K \<noteq> [] \<and> Mat_dims K \<le> 2 \<and> Mat_rows K = 3 \<and> Mat_cols K = 3
         \<and> Mat_channels K = 1
      then Inr (Matx33_of (convertTo K depth)) else Inl CV_Assert_failed)"
  by (simp add: Matx33_checked_def convertTo_def)









text \<open>
  With a single column, \<^verbatim>\<open>SRI::cache\<close> reads \<^verbatim>\<open>sin_phi(0, cols_/2-1)\<close> at column
  \<open>-1\<close>: a configuration that passes every assertion runs into undefined behaviour.
\<close>

lemma SRI_single_column:
  assumes "0 < rows"
    and "Mat_data K \<noteq> []" and "Mat_dims K \<le> 2" and "Mat_rows K = 3" and "Mat_cols K = 3"
    and "Mat_channels K = 1"
    and "\<not> isl (SRI_cache_begin cs (RgbdNormalsImpl_new rows 1 window_size depth K m)
                     (Matx33_of (convertTo K depth)))"
  shows "SRI_new cs (RgbdNormalsImpl_new rows 1 window_size depth K m) = Inl Undefined_behaviour"
  using assms
  by (auto simp: SRI_new_def Matx33_checked_convertTo RgbdNormalsImpl_new_def Let_def
      in_grid_def div_c_def split: sum.splits prod.splits)




text \<open>
  Claim C4 fails on the code. An estimator is built for 480 rows and 640 columns; the
  dispatcher's \<open>cols\<close> is then changed to 320. \<^verbatim>\<open>validate\<close> still answers true, since
  its test of \<open>cols\<close> is an assignment, so \<open>initialize\<close> keeps the estimator built
  for 640 columns.
\<close>

theorem validate_accepts_changed_cols:
  "(let K = \<lparr>Mat_rows = 3, Mat_cols = 3,
              Mat_data = [Fin 525, Fin 0, Fin 320, Fin 0, Fin 525, Fin 240, Fin 0, Fin 0, Fin 1],
              Mat_dims = 2, Mat_depth = CV_32F, Mat_channels = 1\<rparr>;
        cs = \<lparr>FALS_cache = (\<lambda>base Kx. Inr (\<lparr>Mat_rows = 0, Mat_cols = 0, Mat_data = []\<rparr>,
                                          \<lparr>Mat_rows = 0, Mat_cols = 0, Mat_data = []\<rparr>)),
               SRI_cache_begin = (\<lambda>base Kx.
                  Inr (Mat_default, Mat_default, Mat_default, Mat_default)),
               SRI_cache_end = (\<lambda>base Kx kernels.
                  Inr (\<lparr>Mat_rows = 0, Mat_cols = 0, Mat_data = []\<rparr>, kernels,
                       (Mat_default, Mat_default, Mat_default, Mat_default)))\<rparr>
    in case RgbdNormals_new 480 640 CV_32F K 5 RGBD_NORMALS_METHOD_FALS of
         Inl e \<Rightarrow> False
       | Inr this0 \<Rightarrow>
          (case initialize cs this0 of
             Inl e \<Rightarrow> False
           | Inr this1 \<Rightarrow>
              (case rgbd_normals_impl this1 of
                 None \<Rightarrow> False
               | Some impl \<Rightarrow>
                   impl_cols (base_of impl) = 640
                   \<and> validate (base_of impl) 480 320 CV_32F K 5 RGBD_NORMALS_METHOD_FALS
                   \<and> initialize cs (this1\<lparr>cfg_cols := 320\<rparr>) = Inr (this1\<lparr>cfg_cols := 320\<rparr>)
                   \<and> rgbd_normals_impl (this1\<lparr>cfg_cols := 320\<rparr>) = Some impl)))"
  by (simp add: Let_def RgbdNormals_new_def initialize_def initialize_normals_impl_def
      validate_def FALS_new_def Matx33_checked_def RgbdNormalsImpl_new_def convertTo_def
      Mat_type_def
      countNonZero_ne_def RgbdNormalsImpl.extend_def RgbdNormalsImpl.truncate_def
      FALS.fields_def CV_32F_def CV_64F_def)

theorem validate_accepts_changed_cols_witness:
  "(let K = \<lparr>Mat_rows = 3, Mat_cols = 3,
              Mat_data = [Fin 525, Fin 0, Fin 320, Fin 0, Fin 525, Fin 240, Fin 0, Fin 0, Fin 1],
              Mat_dims = 2, Mat_depth = CV_32F, Mat_channels = 1\<rparr>;
        cs = \<lparr>FALS_cache = (\<lambda>base Kx. Inr (\<lparr>Mat_rows = 0, Mat_cols = 0, Mat_data = []\<rparr>,
                                          \<lparr>Mat_rows = 0, Mat_cols = 0, Mat_data = []\<rparr>)),
               SRI_cache_begin = (\<lambda>base Kx.
                  Inr (Mat_default, Mat_default, Mat_default, Mat_default)),
               SRI_cache_end = (\<lambda>base Kx kernels.
                  Inr (\<lparr>Mat_rows = 0, Mat_cols = 0, Mat_data = []\<rparr>, kernels,
                       (Mat_default, Mat_default, Mat_default, Mat_default)))\<rparr>
    in case RgbdNormals_new 480 640 CV_32F K 5 RGBD_NORMALS_METHOD_FALS of
         Inl e \<Rightarrow> False
       | Inr this0 \<Rightarrow>
          (case initialize cs this0 of
             Inl e \<Rightarrow> False
           | Inr this1 \<Rightarrow>
              (case rgbd_normals_impl this1 of
                 None \<Rightarrow> False
               | Some impl \<Rightarrow>
                   (640::int) \<noteq> 320
                   \<and> impl_cols (base_of impl) = 640
                   \<and> validate (base_of impl) 480 320 CV_32F K 5 RGBD_NORMALS_METHOD_FALS)))"
  using validate_accepts_changed_cols
  by (auto simp: Let_def split: sum.splits option.splits)

section \<open>The dispatcher: the depth handed to LINEMOD\<close>

lemma LINEMOD_points3d_default:
  "cfg_method this = RGBD_NORMALS_METHOD_LINEMOD
     \<Longrightarrow> points3d_and_radius this points3d_ori = (Mat_default, TMat.truncate Mat_default)"
  by (simp add: points3d_and_radius_def)

lemma LINEMOD_depth_ignores_input:
  "Mat_channels a = 3 \<Longrightarrow> Mat_channels b = 3
     \<Longrightarrow> LINEMOD_depth core a points3d = LINEMOD_depth core b points3d"
  by (simp add: LINEMOD_depth_def)

text \<open>
  Claim C7 fails on the code. With the LINEMOD method the local \<open>points3d\<close> is never
  assigned, and it is \<open>points3d\<close>, not the input, that \<^verbatim>\<open>operator()\<close> splits into
  channels: the depth handed to the estimator does not come from the input. With
  \<^verbatim>\<open>cv::split\<close> as OpenCV has it, giving no channel for an empty matrix, the access
  \<open>channels[2]\<close> is out of range, for an input whose third channel \<open>cv::split\<close> would
  have given.
\<close>

theorem LINEMOD_point_field_undefined:
  "(let K = \<lparr>Mat_rows = 3, Mat_cols = 3,
              Mat_data = [Fin 525, Fin 0, Fin 320, Fin 0, Fin 525, Fin 240, Fin 0, Fin 0, Fin 1],
              Mat_dims = 2, Mat_depth = CV_32F, Mat_channels = 1\<rparr>;
        cs = \<lparr>FALS_cache = (\<lambda>base Kx. Inr (\<lparr>Mat_rows = 0, Mat_cols = 0, Mat_data = []\<rparr>,
                                          \<lparr>Mat_rows = 0, Mat_cols = 0, Mat_data = []\<rparr>)),
               SRI_cache_begin = (\<lambda>base Kx.
                  Inr (Mat_default, Mat_default, Mat_default, Mat_default)),
               SRI_cache_end = (\<lambda>base Kx kernels.
                  Inr (\<lparr>Mat_rows = 0, Mat_cols = 0, Mat_data = []\<rparr>, kernels,
                       (Mat_default, Mat_default, Mat_default, Mat_default)))\<rparr>;
        cv = \<lparr>boxFilter = (\<lambda>src ksize. src), remap = (\<lambda>src map1 map2. src),
               remap3 = (\<lambda>src map1 map2. src), sepFilter2D = (\<lambda>src kx ky. src)\<rparr>;
        core = \<lparr>split = (\<lambda>m. if Mat_empty m then []
                  else map (\<lambda>c. m\<lparr>Mat_channels := 1,
                         Mat_data := map (\<lambda>k. Mat_data m ! (k * nat (Mat_channels m) + c))
                                       [0..<nat (Mat_rows m * Mat_cols m)]\<rparr>)
                         [0..<nat (Mat_channels m)]),
                 create = (\<lambda>old rows cols type.
                    \<lparr>Mat_rows = rows, Mat_cols = cols,
                     Mat_data = replicate (nat (rows * cols * 3)) (Fin 0),
                     Mat_dims = 2, Mat_depth = type mod 8, Mat_channels = 3\<rparr>)\<rparr>;
        input = \<lparr>Mat_rows = 1, Mat_cols = 1, Mat_data = [Fin 1, Fin 2, Fin 3],
                  Mat_dims = 2, Mat_depth = CV_32F, Mat_channels = 3\<rparr>
    in case RgbdNormals_new 1 1 CV_32F K 5 RGBD_NORMALS_METHOD_LINEMOD of
         Inl e \<Rightarrow> False
       | Inr this \<Rightarrow>
           input_accepted (cfg_method this) input
           \<and> split core input ! 2
                = \<lparr>Mat_rows = 1, Mat_cols = 1, Mat_data = [Fin 3],
                   Mat_dims = 2, Mat_depth = CV_32F, Mat_channels = 1\<rparr>
           \<and> fst (points3d_and_radius this input) = Mat_default
           \<and> LINEMOD_depth core input (fst (points3d_and_radius this input))
                = Inl Undefined_behaviour
           \<and> operator_call cv core cs this input Mat_default = Inl Undefined_behaviour)"
  by (simp add: Let_def RgbdNormals_new_def operator_call_def initialize_def
      initialize_normals_impl_def points3d_and_radius_def LINEMOD_depth_def Mat_empty_def
      Mat_default_def RgbdNormalsImpl_new_def convertTo_def CV_32F_def CV_64F_def CV_16U_def
      upt_rec)

theorem LINEMOD_point_field_undefined_witness:
  "(let K = \<lparr>Mat_rows = 3, Mat_cols = 3,
              Mat_data = [Fin 525, Fin 0, Fin 320, Fin 0, Fin 525, Fin 240, Fin 0, Fin 0, Fin 1],
              Mat_dims = 2, Mat_depth = CV_32F, Mat_channels = 1\<rparr>;
        cs = \<lparr>FALS_cache = (\<lambda>base Kx. Inr (\<lparr>Mat_rows = 0, Mat_cols = 0, Mat_data = []\<rparr>,
                                          \<lparr>Mat_rows = 0, Mat_cols = 0, Mat_data = []\<rparr>)),
               SRI_cache_begin = (\<lambda>base Kx.
                  Inr (Mat_default, Mat_default, Mat_default, Mat_default)),
               SRI_cache_end = (\<lambda>base Kx kernels.
                  Inr (\<lparr>Mat_rows = 0, Mat_cols = 0, Mat_data = []\<rparr>, kernels,
                       (Mat_default, Mat_default, Mat_default, Mat_default)))\<rparr>;
        cv = \<lparr>boxFilter = (\<lambda>src ksize. src), remap = (\<lambda>src map1 map2. src),
               remap3 = (\<lambda>src map1 map2. src), sepFilter2D = (\<lambda>src kx ky. src)\<rparr>;
        core = \<lparr>split = (\<lambda>m. if Mat_empty m then []
                  else map (\<lambda>c. m\<lparr>Mat_channels := 1,
                         Mat_data := map (\<lambda>k. Mat_data m ! (k * nat (Mat_channels m) + c))
                                       [0..<nat (Mat_rows m * Mat_cols m)]\<rparr>)
                         [0..<nat (Mat_channels m)]),
                 create = (\<lambda>old rows cols type.
                    \<lparr>Mat_rows = rows, Mat_cols = cols,
                     Mat_data = replicate (nat (rows * cols * 3)) (Fin 0),
                     Mat_dims = 2, Mat_depth = type mod 8, Mat_channels = 3\<rparr>)\<rparr>;
        input = \<lparr>Mat_rows = 1, Mat_cols = 1, Mat_data = [Fin 1, Fin 2, Fin 3],
                  Mat_dims = 2, Mat_depth = CV_32F, Mat_channels = 3\<rparr>
    in case RgbdNormals_new 1 1 CV_32F K 5 RGBD_NORMALS_METHOD_LINEMOD of
         Inl e \<Rightarrow> False
       | Inr this \<Rightarrow>
           input_accepted (cfg_method this) input
           \<and> operator_call cv core cs this input Mat_default = Inl Undefined_behaviour)"
  using LINEMOD_point_field_undefined
  by (auto simp: Let_def split: sum.splits)


end
